theory Spec2Isabelle
  imports Main "HOL-Library.Word"
begin

section \<open>JavaScript strings\<close>

text \<open>
  A JavaScript string is a sequence of UTF-16 code units. String literals of the source
  are written with \<open>lit\<close>, which maps each ASCII character to its code unit.
\<close>

type_synonym jschar = "16 word"
type_synonym jsstring = "jschar list"

definition lit :: "string \<Rightarrow> jsstring" where
  "lit s = map of_char s"

text \<open>
  \<open>String.prototype.trim\<close> removes WhiteSpace and LineTerminator code points from both
  ends; the regular-expression class \<open>\s\<close> is the same set.
\<close>

definition is_space :: "jschar \<Rightarrow> bool" where
  "is_space c =
     (c = 0x09 \<or> c = 0x0A \<or> c = 0x0B \<or> c = 0x0C \<or> c = 0x0D \<or> c = 0x20 \<or> c = 0xA0
      \<or> c = 0x1680 \<or> (0x2000 \<le> c \<and> c \<le> 0x200A) \<or> c = 0x2028 \<or> c = 0x2029
      \<or> c = 0x202F \<or> c = 0x205F \<or> c = 0x3000 \<or> c = 0xFEFF)"

definition trim :: "jsstring \<Rightarrow> jsstring" where
  "trim s = rev (dropWhile is_space (rev (dropWhile is_space s)))"

text \<open>\<open>a || b\<close> on strings: the empty string is falsy.\<close>

definition or_else :: "jsstring \<Rightarrow> jsstring \<Rightarrow> jsstring" where
  "or_else a b = (if a \<noteq> [] then a else b)"

text \<open>\<open>Array.prototype.join(" ")\<close>.\<close>

fun join_space :: "jsstring list \<Rightarrow> jsstring" where
  "join_space [] = []"
| "join_space [x] = x"
| "join_space (x # y # ys) = x @ lit '' '' @ join_space (y # ys)"

section \<open>Shell escaping\<close>

definition squote :: jschar where
  "squote = 0x27"

definition backslash :: jschar where
  "backslash = 0x5C"

text \<open>\<open>s.replace(/'/g, "'\\''")\<close>: every single quote becomes the four characters \<open>'\''\<close>.\<close>

fun replace_quotes :: "jsstring \<Rightarrow> jsstring" where
  "replace_quotes [] = []"
| "replace_quotes (c # cs) =
     (if c = squote then [squote, backslash, squote, squote] @ replace_quotes cs
      else c # replace_quotes cs)"

definition shellEscape :: "jsstring \<Rightarrow> jsstring" where
  "shellEscape s = [squote] @ replace_quotes s @ [squote]"

subsection \<open>Word splitting of a POSIX shell\<close>

text \<open>
  The reading side of the round trip, after the quoting rules of the POSIX Shell Command
  Language (2.2 Quoting, 2.3 Token Recognition), for command lines made of plain words:
  \<^item> between single quotes every character stands for itself, and a single quote ends
    the quoted part; a quoted part that is never closed is an error;
  \<^item> an unquoted backslash makes the next character literal (a backslash followed by a
    newline is a line continuation and is removed);
  \<^item> an unquoted blank ends the current word;
  \<^item> any other unquoted character with a meaning to the shell (operators, expansions,
    double quotes, patterns, newline) is outside this fragment: the result is \<open>None\<close>.
  The result is the list of arguments the command line is split into. The command line is
  read one code unit at a time; its encoding as bytes for the process, which cannot carry
  a NUL or an unpaired surrogate, is not part of the model.
\<close>

datatype sh_mode = Unquoted | InSingle

definition sh_blank :: "jschar \<Rightarrow> bool" where
  "sh_blank c = (c = 0x20 \<or> c = 0x09)"

definition sh_special :: "jschar \<Rightarrow> bool" where
  "sh_special c = (c \<in> set (lit ''|&;<>()$`\"*?[]#~=%!{}'') \<or> c = 0x0A)"

definition push_char :: "jsstring option \<Rightarrow> jschar \<Rightarrow> jsstring option" where
  "push_char cur c = (case cur of None \<Rightarrow> Some [c] | Some w \<Rightarrow> Some (w @ [c]))"

definition end_word :: "jsstring option \<Rightarrow> jsstring list \<Rightarrow> jsstring list" where
  "end_word cur ws = (case cur of None \<Rightarrow> ws | Some w \<Rightarrow> w # ws)"

fun sh_scan :: "sh_mode \<Rightarrow> jsstring option \<Rightarrow> jsstring \<Rightarrow> jsstring list option" where
  "sh_scan Unquoted cur [] = Some (end_word cur [])"
| "sh_scan InSingle cur [] = None"
| "sh_scan InSingle cur (c # cs) =
     (if c = squote then sh_scan Unquoted cur cs
      else sh_scan InSingle (push_char cur c) cs)"
| "sh_scan Unquoted cur (c # cs) =
     (if c = squote then
        sh_scan InSingle (Some (case cur of None \<Rightarrow> [] | Some w \<Rightarrow> w)) cs
      else if c = backslash then
        (case cs of
           [] \<Rightarrow> None
         | d # ds \<Rightarrow>
             if d = 0x0A then sh_scan Unquoted cur ds
             else sh_scan Unquoted (push_char cur d) ds)
      else if sh_blank c then
        map_option (end_word cur) (sh_scan Unquoted None cs)
      else if sh_special c then None
      else sh_scan Unquoted (push_char cur c) cs)"

definition sh_words :: "jsstring \<Rightarrow> jsstring list option" where
  "sh_words cmd = sh_scan Unquoted None cmd"

section \<open>The command invoker\<close>

text \<open>
  \<open>execSync\<close> belongs to the runtime. It is a parameter of the model: a function from the
  command line and the options to the outcome of the call. It returns the captured standard
  output when the process exits with status zero, and throws otherwise. The error object of
  a failed or timed-out process carries \<open>stderr\<close>, \<open>stdout\<close> and \<open>message\<close>, which
  \<open>runHook\<close> reads as strings (a field that is missing or null is falsy like the empty
  string, and is the empty string here); any other thrown value (one without a
  \<open>stderr\<close> property) is \<open>ThrewOther\<close>.
\<close>

datatype stdio_mode = Ignore | Pipe | Inherit

record exec_options =
  encoding :: jsstring
  stdio :: "stdio_mode list"
  timeout :: nat

record exec_error =
  stderr :: jsstring
  stdout :: jsstring
  message :: jsstring

text \<open>
  A thrown value: an instance of \<open>Error\<close> with its message, or any other value with the
  string that \<open>String(err)\<close> gives for it.
\<close>

datatype thrown = JsError jsstring | NonError jsstring

datatype exec_outcome = Returned jsstring | ThrewExec exec_error | ThrewOther thrown

record env =
  HOOK_CLI_var :: "jsstring option"
  execSync :: "jsstring \<Rightarrow> exec_options \<Rightarrow> exec_outcome"

text \<open>\<open>process.env.HOOK_CLI ?? "/opt/homebrew/lib/ruby/gems/4.0.0/bin/hook"\<close>\<close>

definition HOOK_CLI :: "env \<Rightarrow> jsstring" where
  "HOOK_CLI e =
     (case HOOK_CLI_var e of
        None \<Rightarrow> lit ''/opt/homebrew/lib/ruby/gems/4.0.0/bin/hook''
      | Some p \<Rightarrow> p)"

text \<open>
  The calls of \<open>execSync\<close> made so far are the state: every function that can start a
  process takes the list of calls and returns it extended.
\<close>

record exec_call =
  command :: jsstring
  options :: exec_options

type_synonym 'a io = "exec_call list \<Rightarrow> (thrown + 'a) \<times> exec_call list"

definition return_io :: "'a \<Rightarrow> 'a io" where
  "return_io v calls = (Inr v, calls)"

definition bind_io :: "'a io \<Rightarrow> ('a \<Rightarrow> 'b io) \<Rightarrow> 'b io" where
  "bind_io m f calls =
     (case m calls of
        (Inl t, calls') \<Rightarrow> (Inl t, calls')
      | (Inr v, calls') \<Rightarrow> f v calls')"

definition try_catch :: "'a io \<Rightarrow> (thrown \<Rightarrow> 'a io) \<Rightarrow> 'a io" where
  "try_catch body handler calls =
     (case body calls of
        (Inl t, calls') \<Rightarrow> handler t calls'
      | (Inr v, calls') \<Rightarrow> (Inr v, calls'))"

definition runHook_cmd :: "env \<Rightarrow> jsstring list \<Rightarrow> jsstring" where
  "runHook_cmd e args = join_space (map shellEscape (HOOK_CLI e # args))"

definition runHook_options :: exec_options where
  "runHook_options =
     \<lparr>encoding = lit ''utf-8'', stdio = [Ignore, Pipe, Pipe], timeout = 30000\<rparr>"

text \<open>\<open>args[0]\<close> inside a template literal: \<open>undefined\<close> when the array is empty.\<close>

definition arg0 :: "jsstring list \<Rightarrow> jsstring" where
  "arg0 args = (case args of [] \<Rightarrow> lit ''undefined'' | a # _ \<Rightarrow> a)"

definition runHook :: "env \<Rightarrow> jsstring list \<Rightarrow> jsstring io" where
  "runHook e args calls =
     (let cmd = runHook_cmd e args;
          calls' = calls @ [\<lparr>command = cmd, options = runHook_options\<rparr>]
      in case execSync e cmd runHook_options of
           Returned output \<Rightarrow> (Inr (trim output), calls')
         | ThrewExec err \<Rightarrow>
             (let detail = trim (or_else (or_else (stderr err) (message err)) [])
              in (Inl (JsError (or_else detail (lit ''hook '' @ arg0 args @ lit '' failed''))),
                  calls'))
         | ThrewOther t \<Rightarrow> (Inl t, calls'))"

section \<open>Responses\<close>

datatype content_item = TextContent jsstring

record response =
  content :: "content_item list"
  isError :: "bool option"

text \<open>\<open>{ content: [{ type: "text", text: s }] }\<close>\<close>

definition text_response :: "jsstring \<Rightarrow> response" where
  "text_response s = \<lparr>content = [TextContent s], isError = None\<rparr>"

definition errorResponse :: "thrown \<Rightarrow> response" where
  "errorResponse err =
     (let msg = (case err of JsError m \<Rightarrow> m | NonError r \<Rightarrow> r)
      in \<lparr>content = [TextContent (lit ''Error: '' @ msg)], isError = Some True\<rparr>)"

section \<open>Extracting a hook URL\<close>

definition dquote :: jschar where
  "dquote = 0x22"

text \<open>The class \<open>[^\s'"]\<close>.\<close>

definition url_char :: "jschar \<Rightarrow> bool" where
  "url_char c = (\<not> is_space c \<and> c \<noteq> squote \<and> c \<noteq> dquote)"

definition hook_scheme :: jsstring where
  "hook_scheme = lit ''hook://''"

text \<open>
  The regular expression \<open>/hook:\/\/[^\s'"]+/\<close> tried at the start of \<open>s\<close>: the literal
  \<open>hook://\<close>, then as many characters of the class as there are, and at least one.
\<close>

definition match_here :: "jsstring \<Rightarrow> jsstring option" where
  "match_here s =
     (if take (length hook_scheme) s = hook_scheme
         \<and> takeWhile url_char (drop (length hook_scheme) s) \<noteq> []
      then Some (hook_scheme @ takeWhile url_char (drop (length hook_scheme) s))
      else None)"

text \<open>
  \<open>text.match(re)\<close> without the global flag tries every start position from the left and
  stops at the first one where the expression matches; \<open>match[0]\<close> is the matched text.
\<close>

fun extractHookUrl :: "jsstring \<Rightarrow> jsstring option" where
  "extractHookUrl [] = None"
| "extractHookUrl (c # cs) =
     (case match_here (c # cs) of
        Some m \<Rightarrow> Some m
      | None \<Rightarrow> extractHookUrl cs)"

section \<open>The tools\<close>

text \<open>
  The format parameter reaches a handler as the string the schema validated, and the
  handler passes that string on unchanged.
\<close>

type_synonym format = jsstring

text \<open>\<open>'${s}'\<close> inside a template literal.\<close>

definition quoted :: "jsstring \<Rightarrow> jsstring" where
  "quoted s = [squote] @ s @ [squote]"

subsection \<open>hookmark\_link\<close>

definition link_args :: "jsstring \<Rightarrow> jsstring list" where
  "link_args item = [lit ''clip'', item]"

definition hookmark_link :: "env \<Rightarrow> jsstring \<Rightarrow> response io" where
  "hookmark_link e item =
     try_catch
       (bind_io (runHook e (link_args item)) (\<lambda>output.
          case extractHookUrl output of
            Some hookUrl \<Rightarrow>
              if hookUrl \<noteq> [] then return_io (text_response hookUrl)
              else return_io (text_response (or_else output
                     (lit ''Hookmark URL for '' @ quoted item
                        @ lit '' copied to clipboard. Paste to retrieve the URL.'')))
          | None \<Rightarrow>
              return_io (text_response (or_else output
                (lit ''Hookmark URL for '' @ quoted item
                   @ lit '' copied to clipboard. Paste to retrieve the URL.'')))))
       (\<lambda>err. return_io (errorResponse err))"

subsection \<open>hookmark\_connect\<close>

definition connect_args :: "jsstring \<Rightarrow> jsstring \<Rightarrow> jsstring list" where
  "connect_args item_a item_b = [lit ''link'', item_a, item_b]"

definition hookmark_connect :: "env \<Rightarrow> jsstring \<Rightarrow> jsstring \<Rightarrow> response io" where
  "hookmark_connect e item_a item_b =
     try_catch
       (bind_io (runHook e (connect_args item_a item_b)) (\<lambda>output.
          return_io (text_response (or_else output
            (lit ''Hook created between '' @ quoted item_a @ lit '' and '' @ quoted item_b
               @ lit ''.'')))))
       (\<lambda>err. return_io (errorResponse err))"

subsection \<open>hookmark\_list\<close>

text \<open>\<open>if (item)\<close>: an absent item and the empty string are both falsy.\<close>

definition truthy :: "jsstring option \<Rightarrow> bool" where
  "truthy item = (case item of None \<Rightarrow> False | Some s \<Rightarrow> s \<noteq> [])"

definition push_if :: "bool \<Rightarrow> jsstring list \<Rightarrow> jsstring \<Rightarrow> jsstring list" where
  "push_if b args a = (if b then args @ [a] else args)"

definition list_args :: "jsstring option \<Rightarrow> format \<Rightarrow> bool \<Rightarrow> jsstring list" where
  "list_args item fmt files_only =
     (let args = [lit ''list'', lit ''-o'', fmt];
          args = push_if files_only args (lit ''--files_only'')
      in case item of
           None \<Rightarrow> args
         | Some i \<Rightarrow> push_if (truthy item) args i)"

definition hookmark_list :: "env \<Rightarrow> jsstring option \<Rightarrow> format \<Rightarrow> bool \<Rightarrow> response io" where
  "hookmark_list e item fmt files_only =
     try_catch
       (bind_io (runHook e (list_args item fmt files_only)) (\<lambda>output.
          if output = [] then
            return_io (text_response
              (case item of
                 None \<Rightarrow> lit ''No Hookmark bookmarks found.''
               | Some i \<Rightarrow>
                   if truthy item then lit ''No hooks found for '' @ quoted i @ lit ''.''
                   else lit ''No Hookmark bookmarks found.''))
          else return_io (text_response output)))
       (\<lambda>err. return_io (errorResponse err))"

subsection \<open>hookmark\_search\<close>

definition search_args :: "jsstring \<Rightarrow> format \<Rightarrow> bool \<Rightarrow> bool \<Rightarrow> jsstring list" where
  "search_args query fmt names_only files_only =
     (let args = [lit ''find'', lit ''-o'', fmt];
          args = push_if names_only args (lit ''--names_only'');
          args = push_if files_only args (lit ''--files_only'')
      in args @ [query])"

definition hookmark_search ::
  "env \<Rightarrow> jsstring \<Rightarrow> format \<Rightarrow> bool \<Rightarrow> bool \<Rightarrow> response io" where
  "hookmark_search e query fmt names_only files_only =
     try_catch
       (bind_io (runHook e (search_args query fmt names_only files_only)) (\<lambda>output.
          if output = [] then
            return_io (text_response
              (lit ''No bookmarks found matching '' @ quoted query @ lit ''.''))
          else return_io (text_response output)))
       (\<lambda>err. return_io (errorResponse err))"

subsection \<open>hookmark\_remove\<close>

definition remove_args :: "jsstring \<Rightarrow> jsstring \<Rightarrow> jsstring list" where
  "remove_args item_a item_b = [lit ''remove'', item_a, item_b]"

definition hookmark_remove :: "env \<Rightarrow> jsstring \<Rightarrow> jsstring \<Rightarrow> response io" where
  "hookmark_remove e item_a item_b =
     try_catch
       (bind_io (runHook e (remove_args item_a item_b)) (\<lambda>output.
          return_io (text_response (or_else output
            (lit ''Hook removed between '' @ quoted item_a @ lit '' and '' @ quoted item_b
               @ lit ''.'')))))
       (\<lambda>err. return_io (errorResponse err))"

subsection \<open>hookmark\_clone\<close>

definition clone_args :: "jsstring \<Rightarrow> jsstring \<Rightarrow> jsstring list" where
  "clone_args source destination = [lit ''clone'', source, destination]"

definition hookmark_clone :: "env \<Rightarrow> jsstring \<Rightarrow> jsstring \<Rightarrow> response io" where
  "hookmark_clone e source destination =
     try_catch
       (bind_io (runHook e (clone_args source destination)) (\<lambda>output.
          return_io (text_response (or_else output
            (lit ''Cloned hooks from '' @ quoted source @ lit '' to '' @ quoted destination
               @ lit ''.'')))))
       (\<lambda>err. return_io (errorResponse err))"

subsection \<open>hookmark\_frontmost\<close>

definition frontmost_args :: "jsstring \<Rightarrow> bool \<Rightarrow> jsstring list" where
  "frontmost_args app markdown =
     (let args = [lit ''from''];
          args = push_if markdown args (lit ''--markdown'')
      in args @ [app])"

definition hookmark_frontmost :: "env \<Rightarrow> jsstring \<Rightarrow> bool \<Rightarrow> response io" where
  "hookmark_frontmost e app markdown =
     try_catch
       (bind_io (runHook e (frontmost_args app markdown)) (\<lambda>output.
          if output = [] then
            return_io (text_response
              (lit ''Could not get a Hookmark URL from '' @ quoted app
                 @ lit ''. Make sure the app is running and has an active document.''))
          else return_io (text_response output)))
       (\<lambda>err. return_io (errorResponse err))"

subsection \<open>The seven registered tools\<close>

text \<open>A call with its parameters as the handler receives them, after the input schema.\<close>

datatype tool_call =
    Link jsstring
  | Connect jsstring jsstring
  | ListHooks "jsstring option" format bool
  | Search jsstring format bool bool
  | Remove jsstring jsstring
  | Clone jsstring jsstring
  | Frontmost jsstring bool

fun tool_args :: "tool_call \<Rightarrow> jsstring list" where
  "tool_args (Link item) = link_args item"
| "tool_args (Connect a b) = connect_args a b"
| "tool_args (ListHooks item fmt fo) = list_args item fmt fo"
| "tool_args (Search q fmt no fo) = search_args q fmt no fo"
| "tool_args (Remove a b) = remove_args a b"
| "tool_args (Clone s d) = clone_args s d"
| "tool_args (Frontmost app md) = frontmost_args app md"

fun handler :: "env \<Rightarrow> tool_call \<Rightarrow> response io" where
  "handler e (Link item) = hookmark_link e item"
| "handler e (Connect a b) = hookmark_connect e a b"
| "handler e (ListHooks item fmt fo) = hookmark_list e item fmt fo"
| "handler e (Search q fmt no fo) = hookmark_search e q fmt no fo"
| "handler e (Remove a b) = hookmark_remove e a b"
| "handler e (Clone s d) = hookmark_clone e s d"
| "handler e (Frontmost app md) = hookmark_frontmost e app md"

section \<open>Input schemas\<close>

text \<open>
  The arguments of a call as they arrive: a JSON object, here a map from parameter names
  to JSON values. A parameter that is not given is \<open>None\<close>.
\<close>

datatype json =
    JString jsstring
  | JBoolean bool
  | JNumber int
  | JNull
  | JArray "json list"
  | JObject "(string \<times> json) list"

type_synonym raw_args = "string \<Rightarrow> json option"

text \<open>\<open>z.string().min(1)\<close>\<close>

definition zod_string_min1 :: "json option \<Rightarrow> jsstring option" where
  "zod_string_min1 v =
     (case v of
        Some (JString s) \<Rightarrow> if 1 \<le> length s then Some s else None
      | _ \<Rightarrow> None)"

text \<open>\<open>z.string().optional()\<close>: the result is the parsed value, itself absent or a string.\<close>

definition zod_string_optional :: "json option \<Rightarrow> jsstring option option" where
  "zod_string_optional v =
     (case v of
        None \<Rightarrow> Some None
      | Some (JString s) \<Rightarrow> Some (Some s)
      | _ \<Rightarrow> None)"

text \<open>\<open>z.enum(["paths", "hooks", "markdown", "verbose"]).default(d)\<close>\<close>

definition zod_enum_format :: "jsstring \<Rightarrow> format option" where
  "zod_enum_format s =
     (if s = lit ''paths'' \<or> s = lit ''hooks'' \<or> s = lit ''markdown'' \<or> s = lit ''verbose''
      then Some s
      else None)"

definition zod_format_default :: "format \<Rightarrow> json option \<Rightarrow> format option" where
  "zod_format_default d v =
     (case v of
        None \<Rightarrow> Some d
      | Some (JString s) \<Rightarrow> zod_enum_format s
      | _ \<Rightarrow> None)"

text \<open>\<open>z.boolean().default(d)\<close>\<close>

definition zod_boolean_default :: "bool \<Rightarrow> json option \<Rightarrow> bool option" where
  "zod_boolean_default d v =
     (case v of
        None \<Rightarrow> Some d
      | Some (JBoolean b) \<Rightarrow> Some b
      | _ \<Rightarrow> None)"

text \<open>The \<open>inputSchema\<close> of each tool: every parameter must parse.\<close>

definition link_inputSchema :: "raw_args \<Rightarrow> tool_call option" where
  "link_inputSchema raw =
     (case zod_string_min1 (raw ''item'') of
        Some item \<Rightarrow> Some (Link item)
      | None \<Rightarrow> None)"

definition connect_inputSchema :: "raw_args \<Rightarrow> tool_call option" where
  "connect_inputSchema raw =
     (case (zod_string_min1 (raw ''item_a''), zod_string_min1 (raw ''item_b'')) of
        (Some a, Some b) \<Rightarrow> Some (Connect a b)
      | _ \<Rightarrow> None)"

definition list_inputSchema :: "raw_args \<Rightarrow> tool_call option" where
  "list_inputSchema raw =
     (case (zod_string_optional (raw ''item''),
            zod_format_default (lit ''paths'') (raw ''format''),
            zod_boolean_default False (raw ''files_only'')) of
        (Some item, Some fmt, Some fo) \<Rightarrow> Some (ListHooks item fmt fo)
      | _ \<Rightarrow> None)"

definition search_inputSchema :: "raw_args \<Rightarrow> tool_call option" where
  "search_inputSchema raw =
     (case (zod_string_min1 (raw ''query''),
            zod_format_default (lit ''markdown'') (raw ''format''),
            zod_boolean_default False (raw ''names_only''),
            zod_boolean_default False (raw ''files_only'')) of
        (Some q, Some fmt, Some no, Some fo) \<Rightarrow> Some (Search q fmt no fo)
      | _ \<Rightarrow> None)"

definition remove_inputSchema :: "raw_args \<Rightarrow> tool_call option" where
  "remove_inputSchema raw =
     (case (zod_string_min1 (raw ''item_a''), zod_string_min1 (raw ''item_b'')) of
        (Some a, Some b) \<Rightarrow> Some (Remove a b)
      | _ \<Rightarrow> None)"

definition clone_inputSchema :: "raw_args \<Rightarrow> tool_call option" where
  "clone_inputSchema raw =
     (case (zod_string_min1 (raw ''source''), zod_string_min1 (raw ''destination'')) of
        (Some s, Some d) \<Rightarrow> Some (Clone s d)
      | _ \<Rightarrow> None)"

definition frontmost_inputSchema :: "raw_args \<Rightarrow> tool_call option" where
  "frontmost_inputSchema raw =
     (case (zod_string_min1 (raw ''app''), zod_boolean_default False (raw ''markdown'')) of
        (Some app, Some md) \<Rightarrow> Some (Frontmost app md)
      | _ \<Rightarrow> None)"

text \<open>The registrations made by \<open>server.registerTool\<close>: tool name to input schema.\<close>

definition registered :: "string \<Rightarrow> (raw_args \<Rightarrow> tool_call option) option" where
  "registered name =
     (if name = ''hookmark_link'' then Some link_inputSchema
      else if name = ''hookmark_connect'' then Some connect_inputSchema
      else if name = ''hookmark_list'' then Some list_inputSchema
      else if name = ''hookmark_search'' then Some search_inputSchema
      else if name = ''hookmark_remove'' then Some remove_inputSchema
      else if name = ''hookmark_clone'' then Some clone_inputSchema
      else if name = ''hookmark_frontmost'' then Some frontmost_inputSchema
      else None)"

subsection \<open>Dispatch\<close>

datatype call_result = Rejected | Responded response | Faulted thrown

text \<open>
  Modelled from the spec: the dispatch of a call, which the RPC framework performs and the
  source does not contain. "Client call, Dispatcher validates parameters against the
  declared schema, Dispatcher maps parameters to an argument vector, Command Invoker
  executes": a call whose parameters fail the schema is rejected and the handler does not
  run; otherwise the handler runs on the parsed parameters.
\<close>

definition call_tool ::
  "env \<Rightarrow> string \<Rightarrow> raw_args \<Rightarrow> exec_call list \<Rightarrow> call_result \<times> exec_call list" where
  "call_tool e name raw calls =
     (case registered name of
        None \<Rightarrow> (Rejected, calls)
      | Some schema \<Rightarrow>
          (case schema raw of
             None \<Rightarrow> (Rejected, calls)
           | Some c \<Rightarrow>
               (case handler e c calls of
                  (Inl t, calls') \<Rightarrow> (Faulted t, calls')
                | (Inr r, calls') \<Rightarrow> (Responded r, calls'))))"

subsection \<open>The parameter contracts as the specification words them\<close>

text \<open>
  The table of operations: a required parameter is a non-empty string; an optional item is
  a string; a format is one of \<open>paths\<close>, \<open>hooks\<close>, \<open>markdown\<close>, \<open>verbose\<close>; a flag is a
  boolean. Optional parameters may be absent.
\<close>

definition spec_nonempty_string :: "json option \<Rightarrow> bool" where
  "spec_nonempty_string v = (case v of Some (JString s) \<Rightarrow> s \<noteq> [] | _ \<Rightarrow> False)"

definition spec_optional_string :: "json option \<Rightarrow> bool" where
  "spec_optional_string v =
     (case v of None \<Rightarrow> True | Some (JString s) \<Rightarrow> True | _ \<Rightarrow> False)"

definition spec_optional_format :: "json option \<Rightarrow> bool" where
  "spec_optional_format v =
     (case v of
        None \<Rightarrow> True
      | Some (JString s) \<Rightarrow>
          s \<in> set [lit ''paths'', lit ''hooks'', lit ''markdown'', lit ''verbose'']
      | _ \<Rightarrow> False)"

definition spec_optional_boolean :: "json option \<Rightarrow> bool" where
  "spec_optional_boolean v =
     (case v of None \<Rightarrow> True | Some (JBoolean b) \<Rightarrow> True | _ \<Rightarrow> False)"

definition conforms :: "string \<Rightarrow> raw_args \<Rightarrow> bool" where
  "conforms name raw =
     (if name = ''hookmark_link'' then spec_nonempty_string (raw ''item'')
      else if name = ''hookmark_connect'' then
        spec_nonempty_string (raw ''item_a'') \<and> spec_nonempty_string (raw ''item_b'')
      else if name = ''hookmark_list'' then
        spec_optional_string (raw ''item'') \<and> spec_optional_format (raw ''format'')
        \<and> spec_optional_boolean (raw ''files_only'')
      else if name = ''hookmark_search'' then
        spec_nonempty_string (raw ''query'') \<and> spec_optional_format (raw ''format'')
        \<and> spec_optional_boolean (raw ''names_only'')
        \<and> spec_optional_boolean (raw ''files_only'')
      else if name = ''hookmark_remove'' then
        spec_nonempty_string (raw ''item_a'') \<and> spec_nonempty_string (raw ''item_b'')
      else if name = ''hookmark_clone'' then
        spec_nonempty_string (raw ''source'') \<and> spec_nonempty_string (raw ''destination'')
      else if name = ''hookmark_frontmost'' then
        spec_nonempty_string (raw ''app'') \<and> spec_optional_boolean (raw ''markdown'')
      else False)"

subsection \<open>The argument ordering rule as the specification words it\<close>

text \<open>
  "Sub-command token first, then any flag options (each emitted as \<open>-o <value>\<close> or as a
  standalone boolean flag token when true; booleans that are false emit nothing), then
  positional operands in the order listed." The operands are the required parameters and,
  for the list operation, the item when one is given.
\<close>

fun subcommand_token :: "tool_call \<Rightarrow> jsstring" where
  "subcommand_token (Link _) = lit ''clip''"
| "subcommand_token (Connect _ _) = lit ''link''"
| "subcommand_token (ListHooks _ _ _) = lit ''list''"
| "subcommand_token (Search _ _ _ _) = lit ''find''"
| "subcommand_token (Remove _ _) = lit ''remove''"
| "subcommand_token (Clone _ _) = lit ''clone''"
| "subcommand_token (Frontmost _ _) = lit ''from''"

definition flag_token :: "bool \<Rightarrow> string \<Rightarrow> jsstring list" where
  "flag_token b name = (if b then [lit name] else [])"

fun flag_options :: "tool_call \<Rightarrow> jsstring list" where
  "flag_options (ListHooks _ fmt fo) =
     [lit ''-o'', fmt] @ flag_token fo ''--files_only''"
| "flag_options (Search _ fmt no fo) =
     [lit ''-o'', fmt] @ flag_token no ''--names_only''
       @ flag_token fo ''--files_only''"
| "flag_options (Frontmost _ md) = flag_token md ''--markdown''"
| "flag_options _ = []"

fun positional_operands :: "tool_call \<Rightarrow> jsstring list" where
  "positional_operands (Link item) = [item]"
| "positional_operands (Connect a b) = [a, b]"
| "positional_operands (ListHooks item _ _) = (case item of None \<Rightarrow> [] | Some i \<Rightarrow> [i])"
| "positional_operands (Search q _ _ _) = [q]"
| "positional_operands (Remove a b) = [a, b]"
| "positional_operands (Clone s d) = [s, d]"
| "positional_operands (Frontmost app _) = [app]"

subsection \<open>The failure text as the specification words it\<close>

text \<open>
  "The trimmed standard-error text if non-empty, else the trimmed standard-output text if
  non-empty, else a generic message naming the failed sub-command."
\<close>

definition spec_failure_text :: "exec_error \<Rightarrow> jsstring list \<Rightarrow> jsstring" where
  "spec_failure_text err args =
     (if trim (stderr err) \<noteq> [] then trim (stderr err)
      else if trim (stdout err) \<noteq> [] then trim (stdout err)
      else lit ''hook '' @ arg0 args @ lit '' failed'')"

subsection \<open>Substrings\<close>

definition contains :: "jsstring \<Rightarrow> jsstring \<Rightarrow> bool" where
  "contains t s = (\<exists>pre post. t = pre @ s @ post)"

text \<open>
  An occurrence of the pattern at index \<open>i\<close> of \<open>s\<close>: \<open>hook://\<close> starts there and at least
  one character of the class follows it.
\<close>

definition occurs_at :: "jsstring \<Rightarrow> nat \<Rightarrow> bool" where
  "occurs_at s i =
     (take (length hook_scheme) (drop i s) = hook_scheme
      \<and> i + length hook_scheme < length s
      \<and> url_char (s ! (i + length hook_scheme)))"

section \<open>Round trip of shellEscape\<close>

lemma scan_quoted_body:
  "sh_scan InSingle (Some w) (replace_quotes s @ squote # rest)
     = sh_scan Unquoted (Some (w @ s)) rest"
proof (induction s arbitrary: w)
  case Nil
  show ?case by simp
next
  case (Cons c cs)
  show ?case
  proof (cases "c = squote")
    case True
    have nl: "squote \<noteq> (0x0A :: jschar)" "squote \<noteq> backslash"
      by (simp_all add: squote_def backslash_def)
    have "sh_scan InSingle (Some w) (replace_quotes (c # cs) @ squote # rest)
            = sh_scan InSingle (Some (w @ [squote])) (replace_quotes cs @ squote # rest)"
      using True nl by (simp add: push_char_def)
    also have "\<dots> = sh_scan Unquoted (Some ((w @ [squote]) @ cs)) rest"
      by (rule Cons.IH)
    finally show ?thesis using True by simp
  next
    case False
    have "sh_scan InSingle (Some w) (replace_quotes (c # cs) @ squote # rest)
            = sh_scan InSingle (Some (w @ [c])) (replace_quotes cs @ squote # rest)"
      using False by (simp add: push_char_def)
    also have "\<dots> = sh_scan Unquoted (Some ((w @ [c]) @ cs)) rest"
      by (rule Cons.IH)
    finally show ?thesis by simp
  qed
qed

lemma scan_shellEscape:
  "sh_scan Unquoted None (shellEscape s @ rest) = sh_scan Unquoted (Some s) rest"
  using scan_quoted_body [of "[]" s rest] by (simp add: shellEscape_def)

lemma scan_join_escaped:
  "sh_scan Unquoted None (join_space (map shellEscape args)) = Some args"
proof (induction args rule: induct_list012)
  case 1
  show ?case by (simp add: end_word_def)
next
  case (2 x)
  show ?case
    using scan_shellEscape [of x "[]"] by (simp add: end_word_def)
next
  case (3 x y zs)
  have "sh_scan Unquoted None (join_space (map shellEscape (x # y # zs)))
          = sh_scan Unquoted (Some x) (lit '' '' @ join_space (map shellEscape (y # zs)))"
    using scan_shellEscape [of x "lit '' '' @ join_space (map shellEscape (y # zs))"]
    by simp
  also have "\<dots> = map_option (end_word (Some x))
                       (sh_scan Unquoted None (join_space (map shellEscape (y # zs))))"
    by (simp add: lit_def squote_def backslash_def sh_blank_def)
  also have "\<dots> = Some (x # y # zs)"
    using "3.IH"(2) by (simp add: end_word_def)
  finally show ?case .
qed

text \<open>
  C1: for every argument string (with or without single quotes), a POSIX shell reads
  \<open>shellEscape s\<close> back as exactly one argument, and that argument is \<open>s\<close>.
\<close>

theorem shellEscape_round_trip:
  "sh_words (shellEscape s) = Some [s]"
  using scan_join_escaped [of "[s]"] by (simp add: sh_words_def)

theorem shellEscape_round_trip_witness:
  "shellEscape (lit ''it's'')
     = [squote] @ lit ''it'' @ [squote, backslash, squote, squote] @ lit ''s'' @ [squote]
   \<and> sh_words (shellEscape (lit ''it's'')) = Some [lit ''it's'']"
  using shellEscape_round_trip [of "lit ''it's''"]
  by (simp add: shellEscape_def lit_def squote_def)

section \<open>The command invoker: results\<close>

lemma dropWhile_decomp:
  "\<exists>pre. s = pre @ dropWhile P s \<and> list_all P pre"
proof
  show "s = takeWhile P s @ dropWhile P s \<and> list_all P (takeWhile P s)"
    by (induction s) simp_all
qed

lemma trim_decomp:
  "\<exists>pre post. s = pre @ trim s @ post \<and> list_all is_space pre \<and> list_all is_space post"
proof -
  obtain pre where pre: "s = pre @ dropWhile is_space s" "list_all is_space pre"
    using dropWhile_decomp by blast
  obtain q where q: "rev (dropWhile is_space s) = q @ dropWhile is_space (rev (dropWhile is_space s))"
      "list_all is_space q"
    using dropWhile_decomp by blast
  have "dropWhile is_space s = trim s @ rev q"
    using q(1) by (metis rev_append rev_rev_ident trim_def)
  then have "s = pre @ trim s @ rev q"
    using pre(1) by simp
  moreover have "list_all is_space (rev q)"
    using q(2) by (simp add: list_all_iff)
  ultimately show ?thesis using pre(2) by blast
qed

lemma trim_ends:
  assumes "trim s \<noteq> []"
  shows "\<not> is_space (hd (trim s)) \<and> \<not> is_space (last (trim s))"
proof -
  let ?d = "dropWhile is_space s"
  let ?r = "dropWhile is_space (rev ?d)"
  have r: "?r \<noteq> []" using assms by (simp add: trim_def)
  then have 1: "\<not> is_space (hd ?r)" by (rule hd_dropWhile)
  have last: "last (trim s) = hd ?r"
    using r by (simp add: trim_def last_rev)
  have d: "?d \<noteq> []"
  proof
    assume "?d = []"
    then have "?r = []" by (simp only: rev.simps dropWhile.simps)
    with r show False by simp
  qed
  then have 2: "\<not> is_space (hd ?d)" by (rule hd_dropWhile)
  have "\<exists>q. rev ?d = q @ ?r" using dropWhile_decomp by blast
  then obtain q where "rev ?d = q @ ?r" ..
  then have "?d = trim s @ rev q"
    by (metis rev_append rev_rev_ident trim_def)
  then have "hd ?d = hd (trim s)" using assms by (metis hd_append2)
  then show ?thesis using 1 2 last by simp
qed

lemma runHook_Returned:
  "execSync e (runHook_cmd e args) runHook_options = Returned out \<Longrightarrow>
   runHook e args calls =
     (Inr (trim out), calls @ [\<lparr>command = runHook_cmd e args, options = runHook_options\<rparr>])"
  by (simp add: runHook_def Let_def)

lemma runHook_ThrewExec:
  "execSync e (runHook_cmd e args) runHook_options = ThrewExec err \<Longrightarrow>
   runHook e args calls =
     (Inl (JsError (or_else (trim (or_else (or_else (stderr err) (message err)) []))
                      (lit ''hook '' @ arg0 args @ lit '' failed''))),
      calls @ [\<lparr>command = runHook_cmd e args, options = runHook_options\<rparr>])"
  by (simp add: runHook_def Let_def)

lemma runHook_calls:
  "snd (runHook e args calls) =
     calls @ [\<lparr>command = runHook_cmd e args, options = runHook_options\<rparr>]"
  by (simp add: runHook_def Let_def split: exec_outcome.split)

text \<open>
  C7: when the process exits with status zero (\<open>execSync\<close> returns the captured standard
  output), \<open>runHook\<close> returns that output without its leading and trailing whitespace:
  what is cut off on either side is whitespace only, and what remains neither starts nor
  ends with whitespace. The one call made has standard input ignored and standard output
  and standard error on separate pipes.
\<close>

theorem runHook_success:
  assumes "execSync e (runHook_cmd e args) runHook_options = Returned out"
  shows "runHook e args calls =
           (Inr (trim out),
            calls @ [\<lparr>command = runHook_cmd e args, options = runHook_options\<rparr>])
         \<and> (\<exists>pre post. out = pre @ trim out @ post
               \<and> list_all is_space pre \<and> list_all is_space post)
         \<and> (trim out \<noteq> [] \<longrightarrow>
               \<not> is_space (hd (trim out)) \<and> \<not> is_space (last (trim out)))
         \<and> stdio runHook_options = [Ignore, Pipe, Pipe]"
  using runHook_Returned [OF assms] trim_decomp [of out] trim_ends [of out]
  by (simp add: runHook_options_def)

theorem runHook_success_witness:
  "runHook \<lparr>HOOK_CLI_var = None,
            execSync = (\<lambda>cmd opts. Returned (lit ''  hook://file/AbC  '' @ [0x0A]))\<rparr>
     [lit ''clip'', lit ''/a''] []
   = (Inr (lit ''hook://file/AbC''),
      [\<lparr>command = quoted (lit ''/opt/homebrew/lib/ruby/gems/4.0.0/bin/hook'') @ lit '' ''
                    @ quoted (lit ''clip'') @ lit '' '' @ quoted (lit ''/a''),
        options = \<lparr>encoding = lit ''utf-8'', stdio = [Ignore, Pipe, Pipe], timeout = 30000\<rparr>\<rparr>])"
  using runHook_success [of
    "\<lparr>HOOK_CLI_var = None,
      execSync = (\<lambda>cmd opts. Returned (lit ''  hook://file/AbC  '' @ [0x0A]))\<rparr>"
    "[lit ''clip'', lit ''/a'']" "lit ''  hook://file/AbC  '' @ [0x0A]" "[]"]
  by (simp add: runHook_cmd_def runHook_options_def HOOK_CLI_def shellEscape_def quoted_def
      lit_def squote_def trim_def is_space_def)

text \<open>
  C2, amended: when the process exits non-zero or times out (\<open>execSync\<close> throws an error
  carrying \<open>stderr\<close>), \<open>runHook\<close> raises an error whose message is the trimmed standard
  error if that is non-empty; else, when standard error is empty, the trimmed message of
  the execution error if that is non-empty; else \<open>hook <args[0]> failed\<close>. The captured
  standard output is never used.
\<close>

theorem runHook_failure_message:
  assumes "execSync e (runHook_cmd e args) runHook_options = ThrewExec err"
  shows "\<exists>m. runHook e args calls =
               (Inl (JsError m),
                calls @ [\<lparr>command = runHook_cmd e args, options = runHook_options\<rparr>])
           \<and> (trim (stderr err) \<noteq> [] \<longrightarrow> m = trim (stderr err))
           \<and> (stderr err = [] \<and> trim (message err) \<noteq> [] \<longrightarrow> m = trim (message err))
           \<and> (stderr err \<noteq> [] \<and> trim (stderr err) = []
                \<or> stderr err = [] \<and> trim (message err) = []
              \<longrightarrow> m = lit ''hook '' @ arg0 args @ lit '' failed'')"
proof -
  have ne: "trim (stderr err) \<noteq> [] \<Longrightarrow> stderr err \<noteq> []"
    by (auto simp: trim_def)
  show ?thesis
    using runHook_ThrewExec [OF assms, of calls] ne
    by (auto simp: or_else_def)
qed

theorem runHook_failure_message_witness:
  "runHook \<lparr>HOOK_CLI_var = None,
            execSync = (\<lambda>cmd opts. ThrewExec
              \<lparr>stderr = lit ''Hookmark is not running'' @ [0x0A], stdout = [],
               message = lit ''Command failed: '' @ cmd\<rparr>)\<rparr>
     [lit ''link'', lit ''a.pdf'', lit ''b.pdf''] []
   = (Inl (JsError (lit ''Hookmark is not running'')),
      [\<lparr>command = runHook_cmd \<lparr>HOOK_CLI_var = None, execSync = (\<lambda>cmd opts. Returned [])\<rparr>
                    [lit ''link'', lit ''a.pdf'', lit ''b.pdf''],
        options = runHook_options\<rparr>])
   \<and> fst (runHook \<lparr>HOOK_CLI_var = None,
            execSync = (\<lambda>cmd opts. ThrewExec
              \<lparr>stderr = [], stdout = lit ''boom'', message = lit ''Command failed '' @ [0x0A]\<rparr>)\<rparr>
         [lit ''clip'', lit ''/a''] [])
     = Inl (JsError (lit ''Command failed''))
   \<and> fst (runHook \<lparr>HOOK_CLI_var = None,
            execSync = (\<lambda>cmd opts. ThrewExec
              \<lparr>stderr = [0x0A], stdout = [], message = lit ''Command failed''\<rparr>)\<rparr>
         [lit ''clip'', lit ''/a''] [])
     = Inl (JsError (lit ''hook clip failed''))"
  using
    runHook_failure_message [of
      "\<lparr>HOOK_CLI_var = None,
        execSync = (\<lambda>cmd opts. ThrewExec
          \<lparr>stderr = lit ''Hookmark is not running'' @ [0x0A], stdout = [],
           message = lit ''Command failed: '' @ cmd\<rparr>)\<rparr>"
      "[lit ''link'', lit ''a.pdf'', lit ''b.pdf'']"
      "\<lparr>stderr = lit ''Hookmark is not running'' @ [0x0A], stdout = [],
        message = lit ''Command failed: ''
          @ runHook_cmd \<lparr>HOOK_CLI_var = None, execSync = (\<lambda>cmd opts. Returned [])\<rparr>
              [lit ''link'', lit ''a.pdf'', lit ''b.pdf'']\<rparr>" "[]"]
    runHook_failure_message [of
      "\<lparr>HOOK_CLI_var = None,
        execSync = (\<lambda>cmd opts. ThrewExec
          \<lparr>stderr = [], stdout = lit ''boom'', message = lit ''Command failed '' @ [0x0A]\<rparr>)\<rparr>"
      "[lit ''clip'', lit ''/a'']"
      "\<lparr>stderr = [], stdout = lit ''boom'', message = lit ''Command failed '' @ [0x0A]\<rparr>" "[]"]
    runHook_failure_message [of
      "\<lparr>HOOK_CLI_var = None,
        execSync = (\<lambda>cmd opts. ThrewExec
          \<lparr>stderr = [0x0A], stdout = [], message = lit ''Command failed''\<rparr>)\<rparr>"
      "[lit ''clip'', lit ''/a'']"
      "\<lparr>stderr = [0x0A], stdout = [], message = lit ''Command failed''\<rparr>" "[]"]
  by (simp add: runHook_cmd_def runHook_options_def HOOK_CLI_def arg0_def
      lit_def trim_def is_space_def)

text \<open>
  C2 as stated fails: with empty standard error and standard output \<open>boom\<close>, the message
  raised is the one of the execution error, not \<open>boom\<close>.
\<close>

theorem runHook_failure_stdout_counterexample:
  "fst (runHook \<lparr>HOOK_CLI_var = Some (lit ''hook''),
            execSync = (\<lambda>cmd opts. ThrewExec
              \<lparr>stderr = [], stdout = lit ''boom'', message = lit ''Command failed: '' @ cmd\<rparr>)\<rparr>
         [lit ''clip'', lit ''/a''] [])
     = Inl (JsError (lit ''Command failed: '' @ quoted (lit ''hook'') @ lit '' ''
                       @ quoted (lit ''clip'') @ lit '' '' @ quoted (lit ''/a'')))
   \<and> spec_failure_text
        \<lparr>stderr = [], stdout = lit ''boom'',
         message = lit ''Command failed: '' @ quoted (lit ''hook'') @ lit '' ''
                     @ quoted (lit ''clip'') @ lit '' '' @ quoted (lit ''/a'')\<rparr>
        [lit ''clip'', lit ''/a'']
     = lit ''boom''
   \<and> fst (runHook \<lparr>HOOK_CLI_var = Some (lit ''hook''),
            execSync = (\<lambda>cmd opts. ThrewExec
              \<lparr>stderr = [], stdout = lit ''boom'', message = lit ''Command failed: '' @ cmd\<rparr>)\<rparr>
         [lit ''clip'', lit ''/a''] [])
     \<noteq> Inl (JsError (lit ''boom''))"
  by (simp add: runHook_def runHook_cmd_def runHook_options_def HOOK_CLI_def arg0_def
      spec_failure_text_def or_else_def shellEscape_def quoted_def squote_def lit_def
      trim_def is_space_def Let_def)

section \<open>The handlers\<close>

lemma caught:
  "m calls = (Inl t, calls') \<Longrightarrow>
   try_catch (bind_io m f) (\<lambda>err. return_io (errorResponse err)) calls
     = (Inr (errorResponse t), calls')"
  by (simp add: try_catch_def bind_io_def return_io_def)

lemma handler_caught:
  assumes "runHook e (tool_args c) calls = (Inl t, calls')"
  shows "handler e c calls = (Inr (errorResponse t), calls')"
  using assms
  by (cases c)
     (simp_all add: hookmark_link_def hookmark_connect_def hookmark_list_def
        hookmark_search_def hookmark_remove_def hookmark_clone_def hookmark_frontmost_def
        caught)

lemma link_returns:
  assumes "runHook e (link_args item) calls = (Inr output, calls')"
  shows "hookmark_link e item calls =
           (Inr (text_response
              (case extractHookUrl output of
                 Some u \<Rightarrow> if u \<noteq> [] then u
                    else or_else output (lit ''Hookmark URL for '' @ quoted item
                        @ lit '' copied to clipboard. Paste to retrieve the URL.'')
               | None \<Rightarrow> or_else output (lit ''Hookmark URL for '' @ quoted item
                        @ lit '' copied to clipboard. Paste to retrieve the URL.''))),
            calls')"
  using assms
  by (simp add: hookmark_link_def try_catch_def bind_io_def return_io_def
      split: option.split)

lemma connect_returns:
  assumes "runHook e (connect_args a b) calls = (Inr output, calls')"
  shows "hookmark_connect e a b calls =
           (Inr (text_response (or_else output
              (lit ''Hook created between '' @ quoted a @ lit '' and '' @ quoted b
                 @ lit ''.''))), calls')"
  using assms
  by (simp add: hookmark_connect_def try_catch_def bind_io_def return_io_def
      split: option.split)

lemma list_returns:
  assumes "runHook e (list_args item fmt fo) calls = (Inr output, calls')"
  shows "hookmark_list e item fmt fo calls =
           (Inr (text_response
              (if output = [] then
                 (case item of
                    None \<Rightarrow> lit ''No Hookmark bookmarks found.''
                  | Some i \<Rightarrow>
                      if truthy item then lit ''No hooks found for '' @ quoted i @ lit ''.''
                      else lit ''No Hookmark bookmarks found.'')
               else output)), calls')"
  using assms
  by (simp add: hookmark_list_def try_catch_def bind_io_def return_io_def
      split: option.split)

lemma search_returns:
  assumes "runHook e (search_args q fmt no fo) calls = (Inr output, calls')"
  shows "hookmark_search e q fmt no fo calls =
           (Inr (text_response
              (if output = [] then lit ''No bookmarks found matching '' @ quoted q @ lit ''.''
               else output)), calls')"
  using assms
  by (simp add: hookmark_search_def try_catch_def bind_io_def return_io_def
      split: option.split)

lemma remove_returns:
  assumes "runHook e (remove_args a b) calls = (Inr output, calls')"
  shows "hookmark_remove e a b calls =
           (Inr (text_response (or_else output
              (lit ''Hook removed between '' @ quoted a @ lit '' and '' @ quoted b
                 @ lit ''.''))), calls')"
  using assms
  by (simp add: hookmark_remove_def try_catch_def bind_io_def return_io_def
      split: option.split)

lemma clone_returns:
  assumes "runHook e (clone_args s d) calls = (Inr output, calls')"
  shows "hookmark_clone e s d calls =
           (Inr (text_response (or_else output
              (lit ''Cloned hooks from '' @ quoted s @ lit '' to '' @ quoted d
                 @ lit ''.''))), calls')"
  using assms
  by (simp add: hookmark_clone_def try_catch_def bind_io_def return_io_def
      split: option.split)

lemma frontmost_returns:
  assumes "runHook e (frontmost_args app md) calls = (Inr output, calls')"
  shows "hookmark_frontmost e app md calls =
           (Inr (text_response
              (if output = [] then
                 lit ''Could not get a Hookmark URL from '' @ quoted app
                   @ lit ''. Make sure the app is running and has an active document.''
               else output)), calls')"
  using assms
  by (simp add: hookmark_frontmost_def try_catch_def bind_io_def return_io_def
      split: option.split)

lemma handler_returns:
  assumes "runHook e (tool_args c) calls = (Inr output, calls')"
  shows "\<exists>r. handler e c calls = (Inr r, calls')"
  using assms
  by (cases c)
     (simp_all add: link_returns connect_returns list_returns search_returns
        remove_returns clone_returns frontmost_returns)

lemma handler_total:
  "\<exists>r. handler e c calls = (Inr r, snd (runHook e (tool_args c) calls))"
proof (cases "runHook e (tool_args c) calls")
  case (Pair res calls')
  show ?thesis
  proof (cases res)
    case (Inl t)
    with Pair handler_caught show ?thesis by fastforce
  next
    case (Inr out)
    with Pair handler_returns show ?thesis by fastforce
  qed
qed

text \<open>
  C4: for each of the seven operations, when \<open>runHook\<close> raises a failure the handler
  returns a response with \<open>isError\<close> set and one text item, \<open>Error: \<close> followed by the
  failure's message (for a thrown value that is no \<open>Error\<close>, its string form). No handler
  ever lets an exception out: every call of a handler ends in a response.
\<close>

theorem handler_error_envelope:
  "(runHook e (tool_args c) calls = (Inl err, calls') \<longrightarrow>
      handler e c calls =
        (Inr \<lparr>content =
                [TextContent (lit ''Error: ''
                   @ (case err of JsError m \<Rightarrow> m | NonError r \<Rightarrow> r))],
              isError = Some True\<rparr>,
         calls'))
   \<and> (\<exists>r calls''. handler e c calls = (Inr r, calls''))"
  using handler_caught [of e c calls err calls'] handler_total [of e c calls]
  by (auto simp: errorResponse_def)

theorem handler_error_envelope_witness:
  "handler \<lparr>HOOK_CLI_var = None,
            execSync = (\<lambda>cmd opts. ThrewExec
              \<lparr>stderr = lit ''Hookmark is not running'', stdout = [],
               message = lit ''Command failed: '' @ cmd\<rparr>)\<rparr>
     (Connect (lit ''a.pdf'') (lit ''b.pdf'')) []
   = (Inr \<lparr>content = [TextContent (lit ''Error: Hookmark is not running'')],
           isError = Some True\<rparr>,
      [\<lparr>command = quoted (lit ''/opt/homebrew/lib/ruby/gems/4.0.0/bin/hook'') @ lit '' ''
                    @ quoted (lit ''link'') @ lit '' '' @ quoted (lit ''a.pdf'') @ lit '' ''
                    @ quoted (lit ''b.pdf''),
        options = runHook_options\<rparr>])"
  using handler_error_envelope [of
    "\<lparr>HOOK_CLI_var = None,
      execSync = (\<lambda>cmd opts. ThrewExec
        \<lparr>stderr = lit ''Hookmark is not running'', stdout = [],
         message = lit ''Command failed: '' @ cmd\<rparr>)\<rparr>"
    "Connect (lit ''a.pdf'') (lit ''b.pdf'')" "[]"
    "JsError (lit ''Hookmark is not running'')"
    "[\<lparr>command = quoted (lit ''/opt/homebrew/lib/ruby/gems/4.0.0/bin/hook'') @ lit '' ''
                    @ quoted (lit ''link'') @ lit '' '' @ quoted (lit ''a.pdf'') @ lit '' ''
                    @ quoted (lit ''b.pdf''),
        options = runHook_options\<rparr>]"]
  by (simp add: runHook_def runHook_cmd_def HOOK_CLI_def connect_args_def or_else_def
      shellEscape_def quoted_def squote_def lit_def trim_def is_space_def Let_def)

lemma tool_args_order:
  assumes "\<forall>fmt fo. c \<noteq> ListHooks (Some []) fmt fo"
  shows "tool_args c = subcommand_token c # flag_options c @ positional_operands c"
proof (cases c)
  case (ListHooks item fmt fo)
  with assms have "item \<noteq> Some []" by auto
  with ListHooks show ?thesis
    by (cases item)
       (simp_all add: list_args_def push_if_def truthy_def flag_token_def Let_def)
qed (simp_all add: link_args_def connect_args_def search_args_def remove_args_def
       clone_args_def frontmost_args_def push_if_def flag_token_def Let_def)

lemma sh_words_runHook_cmd:
  "sh_words (runHook_cmd e args) = Some (HOOK_CLI e # args)"
  using scan_join_escaped [of "HOOK_CLI e # args"]
  by (simp add: sh_words_def runHook_cmd_def)

text \<open>
  C5, amended: for each of the seven operations and all parameter values but one, the
  argument vector is the operation's sub-command token, then the flag options (\<open>-o\<close> and
  the requested format; a flag token for each boolean that is true), then the positional
  operands in the documented order, and a shell splits the command line the handler runs
  into the binary path followed by that vector. The exception is an empty string given as
  the item of list: it is not an operand, and the vector ends after the flag options.
  Every handler makes exactly one call, with the command line built from its vector.
\<close>

theorem argument_vector_order:
  "((\<forall>fmt fo. c \<noteq> ListHooks (Some []) fmt fo) \<longrightarrow>
      tool_args c = subcommand_token c # flag_options c @ positional_operands c
      \<and> sh_words (runHook_cmd e (tool_args c))
          = Some (HOOK_CLI e # subcommand_token c # flag_options c @ positional_operands c))
   \<and> (\<exists>r. handler e c calls =
          (Inr r, calls @ [\<lparr>command = runHook_cmd e (tool_args c),
                             options = runHook_options\<rparr>]))
   \<and> tool_args (ListHooks (Some []) fmt fo)
       = [lit ''list'', lit ''-o'', fmt] @ (if fo then [lit ''--files_only''] else [])"
proof (intro conjI impI)
  assume ok: "\<forall>fmt fo. c \<noteq> ListHooks (Some []) fmt fo"
  show "tool_args c = subcommand_token c # flag_options c @ positional_operands c"
    using tool_args_order [OF ok] .
  show "sh_words (runHook_cmd e (tool_args c))
          = Some (HOOK_CLI e # subcommand_token c # flag_options c @ positional_operands c)"
    using tool_args_order [OF ok] sh_words_runHook_cmd [of e "tool_args c"] by simp
next
  show "\<exists>r. handler e c calls =
          (Inr r, calls @ [\<lparr>command = runHook_cmd e (tool_args c),
                             options = runHook_options\<rparr>])"
    using handler_total [of e c calls] runHook_calls [of e "tool_args c" calls] by simp
next
  show "tool_args (ListHooks (Some []) fmt fo)
          = [lit ''list'', lit ''-o'', fmt] @ (if fo then [lit ''--files_only''] else [])"
    by (simp add: list_args_def push_if_def truthy_def Let_def)
qed

theorem argument_vector_order_witness:
  "tool_args (Frontmost (lit ''Mail'') True) = [lit ''from'', lit ''--markdown'', lit ''Mail'']
   \<and> sh_words (runHook_cmd \<lparr>HOOK_CLI_var = Some (lit ''/usr/local/bin/hook''),
                              execSync = (\<lambda>cmd opts. Returned [])\<rparr>
                   (tool_args (Frontmost (lit ''Mail'') True)))
       = Some [lit ''/usr/local/bin/hook'', lit ''from'', lit ''--markdown'', lit ''Mail'']
   \<and> tool_args (ListHooks (Some (lit ''/a.md'')) (lit ''hooks'') True)
       = [lit ''list'', lit ''-o'', lit ''hooks'', lit ''--files_only'', lit ''/a.md'']
   \<and> tool_args (Search (lit ''invoice'') (lit ''verbose'') True False)
       = [lit ''find'', lit ''-o'', lit ''verbose'', lit ''--names_only'', lit ''invoice'']
   \<and> tool_args (Link (lit ''/a.md'')) = [lit ''clip'', lit ''/a.md'']
   \<and> tool_args (Connect (lit ''a'') (lit ''b'')) = [lit ''link'', lit ''a'', lit ''b'']
   \<and> tool_args (Remove (lit ''a'') (lit ''b'')) = [lit ''remove'', lit ''a'', lit ''b'']
   \<and> tool_args (Clone (lit ''a'') (lit ''b'')) = [lit ''clone'', lit ''a'', lit ''b'']"
proof -
  let ?e = "\<lparr>HOOK_CLI_var = Some (lit ''/usr/local/bin/hook''),
             execSync = (\<lambda>cmd opts. Returned [])\<rparr>"
  have ne: "lit ''/a.md'' \<noteq> []" by (simp add: lit_def)
  have 1: "\<forall>fmt fo. Frontmost (lit ''Mail'') True \<noteq> ListHooks (Some []) fmt fo" by simp
  have 2: "\<forall>fmt fo. ListHooks (Some (lit ''/a.md'')) (lit ''hooks'') True
             \<noteq> ListHooks (Some []) fmt fo"
    using ne by simp
  have 3: "\<forall>fmt fo. Search (lit ''invoice'') (lit ''verbose'') True False
             \<noteq> ListHooks (Some []) fmt fo" by simp
  have 4: "\<forall>fmt fo. Link (lit ''/a.md'') \<noteq> ListHooks (Some []) fmt fo" by simp
  have 5: "\<forall>fmt fo. Connect (lit ''a'') (lit ''b'') \<noteq> ListHooks (Some []) fmt fo" by simp
  have 6: "\<forall>fmt fo. Remove (lit ''a'') (lit ''b'') \<noteq> ListHooks (Some []) fmt fo" by simp
  have 7: "\<forall>fmt fo. Clone (lit ''a'') (lit ''b'') \<noteq> ListHooks (Some []) fmt fo" by simp
  note rule = argument_vector_order [where e = ?e and calls = "[]", THEN conjunct1, THEN mp]
  from rule [OF 1] rule [OF 2] rule [OF 3] rule [OF 4] rule [OF 5] rule [OF 6] rule [OF 7]
  show ?thesis
    by (auto simp: flag_token_def HOOK_CLI_def)
qed

text \<open>
  C5 as stated fails: an empty string is a valid item for list, and the positional operand
  the ordering rule asks for is missing from the vector.
\<close>

theorem argument_vector_empty_item_counterexample:
  "list_inputSchema [''item'' \<mapsto> JString []]
     = Some (ListHooks (Some []) (lit ''paths'') False)
   \<and> tool_args (ListHooks (Some []) (lit ''paths'') False)
       = [lit ''list'', lit ''-o'', lit ''paths'']
   \<and> subcommand_token (ListHooks (Some []) (lit ''paths'') False)
         # flag_options (ListHooks (Some []) (lit ''paths'') False)
         @ positional_operands (ListHooks (Some []) (lit ''paths'') False)
       = [lit ''list'', lit ''-o'', lit ''paths'', []]
   \<and> tool_args (ListHooks (Some []) (lit ''paths'') False)
       \<noteq> subcommand_token (ListHooks (Some []) (lit ''paths'') False)
           # flag_options (ListHooks (Some []) (lit ''paths'') False)
           @ positional_operands (ListHooks (Some []) (lit ''paths'') False)"
  by (simp add: list_inputSchema_def zod_string_optional_def zod_format_default_def
      zod_boolean_default_def list_args_def push_if_def truthy_def flag_token_def Let_def)

lemma contains_mid: "contains (a @ quoted s @ b) s"
  unfolding contains_def quoted_def
  by (rule exI [of _ "a @ [squote]"], rule exI [of _ "[squote] @ b"]) simp

text \<open>
  C6: when the process succeeds with output that is empty after trimming, list and search
  return a response whose one text item is a non-empty message. For search it contains the
  query (\<open>No bookmarks found matching '<query>'.\<close>). For list with an item it contains the
  item (\<open>No hooks found for '<item>'.\<close> when the item is not empty); for list without an
  item it is \<open>No Hookmark bookmarks found.\<close>
\<close>

theorem empty_output_messages:
  "(execSync e (runHook_cmd e (list_args item fmt fo)) runHook_options = Returned out
      \<and> trim out = [] \<longrightarrow>
    (\<exists>t. hookmark_list e item fmt fo calls =
            (Inr \<lparr>content = [TextContent t], isError = None\<rparr>,
             calls @ [\<lparr>command = runHook_cmd e (list_args item fmt fo),
                        options = runHook_options\<rparr>])
       \<and> t \<noteq> []
       \<and> (case item of
             None \<Rightarrow> t = lit ''No Hookmark bookmarks found.''
           | Some i \<Rightarrow>
               contains t i
               \<and> (i \<noteq> [] \<longrightarrow> t = lit ''No hooks found for '' @ quoted i @ lit ''.''))))
   \<and> (execSync e (runHook_cmd e (search_args q fmt' no fo')) runHook_options = Returned out'
      \<and> trim out' = [] \<longrightarrow>
    (\<exists>t. hookmark_search e q fmt' no fo' calls =
            (Inr \<lparr>content = [TextContent t], isError = None\<rparr>,
             calls @ [\<lparr>command = runHook_cmd e (search_args q fmt' no fo'),
                        options = runHook_options\<rparr>])
       \<and> t \<noteq> [] \<and> contains t q
       \<and> t = lit ''No bookmarks found matching '' @ quoted q @ lit ''.''))"
proof (intro conjI impI)
  assume a: "execSync e (runHook_cmd e (list_args item fmt fo)) runHook_options = Returned out
      \<and> trim out = []"
  then have r: "runHook e (list_args item fmt fo) calls =
      (Inr [], calls @ [\<lparr>command = runHook_cmd e (list_args item fmt fo),
                         options = runHook_options\<rparr>])"
    using runHook_Returned [of e "list_args item fmt fo" out calls] by simp
  have e: "contains (lit ''No Hookmark bookmarks found.'') []"
    unfolding contains_def by (rule exI [of _ "[]"]) simp
  show "\<exists>t. hookmark_list e item fmt fo calls =
            (Inr \<lparr>content = [TextContent t], isError = None\<rparr>,
             calls @ [\<lparr>command = runHook_cmd e (list_args item fmt fo),
                        options = runHook_options\<rparr>])
       \<and> t \<noteq> []
       \<and> (case item of
             None \<Rightarrow> t = lit ''No Hookmark bookmarks found.''
           | Some i \<Rightarrow>
               contains t i
               \<and> (i \<noteq> [] \<longrightarrow> t = lit ''No hooks found for '' @ quoted i @ lit ''.''))"
    unfolding list_returns [OF r]
    using e contains_mid [of "lit ''No hooks found for ''" _ "lit ''.''"]
    by (auto simp: text_response_def truthy_def lit_def split: option.split)
next
  assume a: "execSync e (runHook_cmd e (search_args q fmt' no fo')) runHook_options = Returned out'
      \<and> trim out' = []"
  then have r: "runHook e (search_args q fmt' no fo') calls =
      (Inr [], calls @ [\<lparr>command = runHook_cmd e (search_args q fmt' no fo'),
                         options = runHook_options\<rparr>])"
    using runHook_Returned [of e "search_args q fmt' no fo'" out' calls] by simp
  show "\<exists>t. hookmark_search e q fmt' no fo' calls =
            (Inr \<lparr>content = [TextContent t], isError = None\<rparr>,
             calls @ [\<lparr>command = runHook_cmd e (search_args q fmt' no fo'),
                        options = runHook_options\<rparr>])
       \<and> t \<noteq> [] \<and> contains t q
       \<and> t = lit ''No bookmarks found matching '' @ quoted q @ lit ''.''"
    unfolding search_returns [OF r]
    using contains_mid [of "lit ''No bookmarks found matching ''" q "lit ''.''"]
    by (auto simp: text_response_def lit_def)
qed

theorem empty_output_messages_witness:
  "hookmark_list \<lparr>HOOK_CLI_var = None, execSync = (\<lambda>cmd opts. Returned [0x0A])\<rparr>
     None (lit ''paths'') False []
   = (Inr \<lparr>content = [TextContent (lit ''No Hookmark bookmarks found.'')], isError = None\<rparr>,
      [\<lparr>command = quoted (lit ''/opt/homebrew/lib/ruby/gems/4.0.0/bin/hook'') @ lit '' ''
                    @ quoted (lit ''list'') @ lit '' '' @ quoted (lit ''-o'') @ lit '' ''
                    @ quoted (lit ''paths''),
        options = runHook_options\<rparr>])
   \<and> fst (hookmark_list \<lparr>HOOK_CLI_var = None, execSync = (\<lambda>cmd opts. Returned [0x0A])\<rparr>
          (Some (lit ''/a.md'')) (lit ''paths'') False [])
     = Inr \<lparr>content = [TextContent (lit ''No hooks found for '' @ quoted (lit ''/a.md'')
                                        @ lit ''.'')],
            isError = None\<rparr>
   \<and> fst (hookmark_search \<lparr>HOOK_CLI_var = None, execSync = (\<lambda>cmd opts. Returned [0x0A])\<rparr>
          (lit ''invoice'') (lit ''paths'') False False [])
     = Inr \<lparr>content = [TextContent (lit ''No bookmarks found matching ''
                                        @ quoted (lit ''invoice'') @ lit ''.'')],
            isError = None\<rparr>"
proof -
  let ?e = "\<lparr>HOOK_CLI_var = None, execSync = (\<lambda>cmd opts. Returned [0x0A])\<rparr>"
  have t: "trim [0x0A] = []" by (simp add: trim_def is_space_def)
  have l1: "execSync ?e (runHook_cmd ?e (list_args None (lit ''paths'') False)) runHook_options
              = Returned [0x0A] \<and> trim [0x0A] = []"
    using t by simp
  have l2: "execSync ?e (runHook_cmd ?e (list_args (Some (lit ''/a.md'')) (lit ''paths'') False))
              runHook_options = Returned [0x0A] \<and> trim [0x0A] = []"
    using t by simp
  have s: "execSync ?e (runHook_cmd ?e (search_args (lit ''invoice'') (lit ''paths'') False False))
              runHook_options = Returned [0x0A] \<and> trim [0x0A] = []"
    using t by simp
  have ne: "lit ''/a.md'' \<noteq> []" by (simp add: lit_def)
  have cmd: "runHook_cmd ?e (list_args None (lit ''paths'') False)
               = quoted (lit ''/opt/homebrew/lib/ruby/gems/4.0.0/bin/hook'') @ lit '' ''
                    @ quoted (lit ''list'') @ lit '' '' @ quoted (lit ''-o'') @ lit '' ''
                    @ quoted (lit ''paths'')"
    by (simp add: runHook_cmd_def HOOK_CLI_def list_args_def push_if_def shellEscape_def
        quoted_def squote_def lit_def Let_def)
  from empty_output_messages [where e = ?e and item = None and fmt = "lit ''paths''"
      and fo = False and out = "[0x0A]" and calls = "[]" and q = "lit ''invoice''"
      and fmt' = "lit ''paths''" and no = False and fo' = False and out' = "[0x0A]"]
    empty_output_messages [where e = ?e and item = "Some (lit ''/a.md'')"
      and fmt = "lit ''paths''" and fo = False and out = "[0x0A]" and calls = "[]"
      and q = "lit ''invoice''" and fmt' = "lit ''paths''" and no = False and fo' = False
      and out' = "[0x0A]"]
    l1 l2 s ne cmd
  show ?thesis by auto
qed

text \<open>
  C9: for the list operation the empty string is accepted as item (a call that is valid
  without an item stays valid with the item set to the empty string), and the handler
  treats it as an absent item: the argument vector is the same, the whole call behaves
  the same, and on empty output the message is \<open>No Hookmark bookmarks found.\<close>
\<close>

theorem list_empty_item_as_absent:
  "(list_inputSchema raw = Some (ListHooks None fmt fo) \<longrightarrow>
      list_inputSchema (raw(''item'' \<mapsto> JString [])) = Some (ListHooks (Some []) fmt fo))
   \<and> list_args (Some []) fmt fo = list_args None fmt fo
   \<and> hookmark_list e (Some []) fmt fo calls = hookmark_list e None fmt fo calls
   \<and> (runHook e (list_args (Some []) fmt fo) calls = (Inr [], calls') \<longrightarrow>
        hookmark_list e (Some []) fmt fo calls
          = (Inr \<lparr>content = [TextContent (lit ''No Hookmark bookmarks found.'')],
                  isError = None\<rparr>, calls'))"
proof (intro conjI impI)
  assume "list_inputSchema raw = Some (ListHooks None fmt fo)"
  then show "list_inputSchema (raw(''item'' \<mapsto> JString [])) = Some (ListHooks (Some []) fmt fo)"
    by (auto simp: list_inputSchema_def zod_string_optional_def
        split: option.splits json.splits)
next
  show args: "list_args (Some []) fmt fo = list_args None fmt fo"
    by (simp add: list_args_def truthy_def push_if_def)
  show "hookmark_list e (Some []) fmt fo calls = hookmark_list e None fmt fo calls"
    by (simp add: hookmark_list_def args truthy_def cong: if_cong)
next
  assume "runHook e (list_args (Some []) fmt fo) calls = (Inr [], calls')"
  from list_returns [OF this]
  show "hookmark_list e (Some []) fmt fo calls
          = (Inr \<lparr>content = [TextContent (lit ''No Hookmark bookmarks found.'')],
                  isError = None\<rparr>, calls')"
    by (simp add: truthy_def text_response_def)
qed

theorem list_empty_item_as_absent_witness:
  "list_inputSchema [''item'' \<mapsto> JString []]
     = Some (ListHooks (Some []) (lit ''paths'') False)
   \<and> list_args (Some []) (lit ''paths'') False = [lit ''list'', lit ''-o'', lit ''paths'']
   \<and> fst (hookmark_list \<lparr>HOOK_CLI_var = None, execSync = (\<lambda>cmd opts. Returned [])\<rparr>
          (Some []) (lit ''paths'') False [])
     = Inr \<lparr>content = [TextContent (lit ''No Hookmark bookmarks found.'')], isError = None\<rparr>"
  using list_empty_item_as_absent [where raw = Map.empty and fmt = "lit ''paths''"
    and fo = False
    and e = "\<lparr>HOOK_CLI_var = None, execSync = (\<lambda>cmd opts. Returned [])\<rparr>"
    and calls = "[]"
    and calls' = "[\<lparr>command = runHook_cmd
        \<lparr>HOOK_CLI_var = None, execSync = (\<lambda>cmd opts. Returned [])\<rparr>
        (list_args (Some []) (lit ''paths'') False), options = runHook_options\<rparr>]"]
  by (simp add: list_inputSchema_def zod_string_optional_def zod_format_default_def
      zod_boolean_default_def list_args_def push_if_def truthy_def runHook_def trim_def
      hookmark_list_def try_catch_def bind_io_def return_io_def text_response_def Let_def)

section \<open>Validation before dispatch\<close>

lemma string_min1_iff: "spec_nonempty_string v \<longleftrightarrow> zod_string_min1 v \<noteq> None"
  by (simp add: zod_string_min1_def spec_nonempty_string_def Suc_le_eq
      split: option.split json.split)

lemma string_optional_iff: "spec_optional_string v \<longleftrightarrow> zod_string_optional v \<noteq> None"
  by (simp add: zod_string_optional_def spec_optional_string_def
      split: option.split json.split)

lemma format_default_iff: "spec_optional_format v \<longleftrightarrow> zod_format_default d v \<noteq> None"
  by (simp add: zod_format_default_def spec_optional_format_def zod_enum_format_def
      split: option.split json.split)

lemma boolean_default_iff:
  "spec_optional_boolean v \<longleftrightarrow> zod_boolean_default d v \<noteq> None"
  by (simp add: zod_boolean_default_def spec_optional_boolean_def
      split: option.split json.split)

lemma link_schema_iff:
  "link_inputSchema raw \<noteq> None \<longleftrightarrow> spec_nonempty_string (raw ''item'')"
  by (simp add: link_inputSchema_def string_min1_iff split: option.split)

lemma connect_schema_iff:
  "connect_inputSchema raw \<noteq> None \<longleftrightarrow>
     spec_nonempty_string (raw ''item_a'') \<and> spec_nonempty_string (raw ''item_b'')"
  by (simp add: connect_inputSchema_def string_min1_iff split: option.split)

lemma list_schema_iff:
  "list_inputSchema raw \<noteq> None \<longleftrightarrow>
     spec_optional_string (raw ''item'') \<and> spec_optional_format (raw ''format'')
     \<and> spec_optional_boolean (raw ''files_only'')"
  by (simp add: list_inputSchema_def string_optional_iff format_default_iff [of _ "lit ''paths''"]
      boolean_default_iff [of _ False] split: option.split)

lemma search_schema_iff:
  "search_inputSchema raw \<noteq> None \<longleftrightarrow>
     spec_nonempty_string (raw ''query'') \<and> spec_optional_format (raw ''format'')
     \<and> spec_optional_boolean (raw ''names_only'')
     \<and> spec_optional_boolean (raw ''files_only'')"
  by (simp add: search_inputSchema_def string_min1_iff format_default_iff [of _ "lit ''markdown''"]
      boolean_default_iff [of _ False] split: option.split)

lemma remove_schema_iff:
  "remove_inputSchema raw \<noteq> None \<longleftrightarrow>
     spec_nonempty_string (raw ''item_a'') \<and> spec_nonempty_string (raw ''item_b'')"
  by (simp add: remove_inputSchema_def string_min1_iff split: option.split)

lemma clone_schema_iff:
  "clone_inputSchema raw \<noteq> None \<longleftrightarrow>
     spec_nonempty_string (raw ''source'') \<and> spec_nonempty_string (raw ''destination'')"
  by (simp add: clone_inputSchema_def string_min1_iff split: option.split)

lemma frontmost_schema_iff:
  "frontmost_inputSchema raw \<noteq> None \<longleftrightarrow>
     spec_nonempty_string (raw ''app'') \<and> spec_optional_boolean (raw ''markdown'')"
  by (simp add: frontmost_inputSchema_def string_min1_iff boolean_default_iff [of _ False]
      split: option.split)

lemma conforms_iff:
  "conforms name raw \<longleftrightarrow>
     (case registered name of None \<Rightarrow> False | Some schema \<Rightarrow> schema raw \<noteq> None)"
  unfolding conforms_def registered_def
  by (simp only: link_schema_iff connect_schema_iff list_schema_iff search_schema_iff
        remove_schema_iff clone_schema_iff frontmost_schema_iff option.case
        if_distrib [where f = "case_option False (\<lambda>schema. schema raw \<noteq> None)"])

text \<open>
  C8: a call whose parameters do not meet the parameter contract of its operation is
  rejected, and the list of \<open>execSync\<close> calls is unchanged: no process is started and
  \<open>runHook\<close> is not reached.
\<close>

theorem invalid_call_never_runs:
  assumes "\<not> conforms name raw"
  shows "call_tool e name raw calls = (Rejected, calls)"
  using assms by (auto simp: conforms_iff call_tool_def split: option.splits)

theorem invalid_call_never_runs_witness:
  "call_tool \<lparr>HOOK_CLI_var = None, execSync = (\<lambda>cmd opts. Returned (lit ''hook://x''))\<rparr>
     ''hookmark_link'' [''item'' \<mapsto> JString []] [] = (Rejected, [])
   \<and> call_tool \<lparr>HOOK_CLI_var = None, execSync = (\<lambda>cmd opts. Returned (lit ''hook://x''))\<rparr>
     ''hookmark_list'' [''format'' \<mapsto> JString (lit ''json'')] [] = (Rejected, [])"
  using
    invalid_call_never_runs [of "''hookmark_link''" "[''item'' \<mapsto> JString []]"
      "\<lparr>HOOK_CLI_var = None, execSync = (\<lambda>cmd opts. Returned (lit ''hook://x''))\<rparr>" "[]"]
    invalid_call_never_runs [of "''hookmark_list''" "[''format'' \<mapsto> JString (lit ''json'')]"
      "\<lparr>HOOK_CLI_var = None, execSync = (\<lambda>cmd opts. Returned (lit ''hook://x''))\<rparr>" "[]"]
  by (simp add: conforms_def spec_nonempty_string_def spec_optional_format_def
      spec_optional_string_def spec_optional_boolean_def lit_def)

section \<open>The hook URL in the output of link\<close>

lemma match_here_Some:
  assumes "match_here s = Some m"
  shows "\<exists>u post. s = hook_scheme @ u @ post \<and> m = hook_scheme @ u \<and> u \<noteq> []
           \<and> (\<forall>c\<in>set u. url_char c) \<and> (post = [] \<or> \<not> url_char (hd post))"
proof -
  let ?rest = "drop (length hook_scheme) s"
  let ?u = "takeWhile url_char ?rest"
  let ?post = "dropWhile url_char ?rest"
  from assms have pre: "take (length hook_scheme) s = hook_scheme"
    and ne: "?u \<noteq> []" and m: "m = hook_scheme @ ?u"
    by (auto simp: match_here_def split: if_splits)
  have "s = take (length hook_scheme) s @ ?rest" by simp
  also have "\<dots> = hook_scheme @ ?u @ ?post" using pre by simp
  finally have s: "s = hook_scheme @ ?u @ ?post" .
  have all: "\<forall>c\<in>set ?u. url_char c" by (auto dest: set_takeWhileD)
  have stop: "?post = [] \<or> \<not> url_char (hd ?post)" using hd_dropWhile by blast
  from s m ne all stop show ?thesis by blast
qed

lemma extract_Some:
  "extractHookUrl s = Some m \<Longrightarrow>
   \<exists>pre u post. s = pre @ hook_scheme @ u @ post \<and> m = hook_scheme @ u \<and> u \<noteq> []
     \<and> (\<forall>c\<in>set u. url_char c) \<and> (post = [] \<or> \<not> url_char (hd post))"
proof (induction s)
  case Nil
  then show ?case by simp
next
  case (Cons c cs)
  show ?case
  proof (cases "match_here (c # cs)")
    case None
    with Cons.prems have "extractHookUrl cs = Some m" by simp
    from Cons.IH [OF this] obtain pre u post where
      "cs = pre @ hook_scheme @ u @ post" "m = hook_scheme @ u" "u \<noteq> []"
      "\<forall>c\<in>set u. url_char c" "post = [] \<or> \<not> url_char (hd post)"
      by blast
    then have "c # cs = (c # pre) @ hook_scheme @ u @ post" by simp
    with \<open>m = hook_scheme @ u\<close> \<open>u \<noteq> []\<close> \<open>\<forall>c\<in>set u. url_char c\<close>
      \<open>post = [] \<or> \<not> url_char (hd post)\<close>
    show ?thesis by blast
  next
    case (Some m')
    with Cons.prems have "m' = m" by simp
    with Some match_here_Some [of "c # cs" m] obtain u post where
      "c # cs = [] @ hook_scheme @ u @ post" "m = hook_scheme @ u" "u \<noteq> []"
      "\<forall>c\<in>set u. url_char c" "post = [] \<or> \<not> url_char (hd post)"
      by auto
    then show ?thesis by blast
  qed
qed

lemma match_here_drop:
  "match_here (drop i s) =
     (if occurs_at s i
      then Some (hook_scheme @ takeWhile url_char (drop (i + length hook_scheme) s))
      else None)"
proof -
  have "takeWhile url_char (drop (length hook_scheme) (drop i s)) \<noteq> [] \<longleftrightarrow>
          i + length hook_scheme < length s \<and> url_char (s ! (i + length hook_scheme))"
    by (auto simp: takeWhile_eq_Nil_iff hd_drop_conv_nth add.commute)
  then show ?thesis
    by (simp add: match_here_def occurs_at_def add.commute)
qed

lemma extract_first:
  "match_here (drop i s) = Some m \<Longrightarrow> (\<forall>j<i. match_here (drop j s) = None) \<Longrightarrow>
   extractHookUrl s = Some m"
proof (induction s arbitrary: i)
  case Nil
  then show ?case by (simp add: match_here_def hook_scheme_def lit_def)
next
  case (Cons c cs)
  show ?case
  proof (cases i)
    case 0
    with Cons.prems(1) show ?thesis by simp
  next
    case (Suc k)
    with Cons.prems(2) have none: "match_here (c # cs) = None" by fastforce
    from Suc Cons.prems(1) have 1: "match_here (drop k cs) = Some m" by simp
    have 2: "\<forall>j<k. match_here (drop j cs) = None"
    proof (intro allI impI)
      fix j assume "j < k"
      then have "Suc j < i" using Suc by simp
      with Cons.prems(2) have "match_here (drop (Suc j) (c # cs)) = None" by blast
      then show "match_here (drop j cs) = None" by simp
    qed
    from Cons.IH [OF 1 2] none show ?thesis by simp
  qed
qed

lemma extract_first_occurrence:
  assumes "occurs_at s i" "\<forall>j<i. \<not> occurs_at s j"
  shows "extractHookUrl s
           = Some (hook_scheme @ takeWhile url_char (drop (i + length hook_scheme) s))"
  using assms extract_first [of i s] by (simp add: match_here_drop)

lemma occurs_at_append:
  assumes "u \<noteq> []" "url_char (hd u)"
  shows "occurs_at (pre @ hook_scheme @ u @ post) (length pre)"
  using assms by (cases u) (simp_all add: occurs_at_def nth_append)

lemma occurs_at_Cons_Suc: "occurs_at (c # s) (Suc k) = occurs_at s k"
  by (simp add: occurs_at_def)

lemma occurs_at_space_0:
  assumes "is_space c"
  shows "\<not> occurs_at (c # s) 0"
proof
  assume "occurs_at (c # s) 0"
  then have "c = 0x68"
    by (simp add: occurs_at_def hook_scheme_def lit_def)
  with assms show False by (simp add: is_space_def)
qed

lemma occurs_at_skip_spaces:
  assumes "\<forall>c\<in>set a. is_space c"
  shows "occurs_at (a @ s) i \<longleftrightarrow> length a \<le> i \<and> occurs_at s (i - length a)"
  using assms
proof (induction a arbitrary: i)
  case Nil
  show ?case by simp
next
  case (Cons c a)
  show ?case
  proof (cases i)
    case 0
    with Cons.prems occurs_at_space_0 [of c "a @ s"] show ?thesis by simp
  next
    case (Suc k)
    with Cons show ?thesis by (simp add: occurs_at_Cons_Suc)
  qed
qed

lemma occurs_at_trailing_spaces:
  assumes "\<forall>c\<in>set b. is_space c"
  shows "occurs_at (t @ b) j \<longleftrightarrow> occurs_at t j"
proof -
  let ?n = "length hook_scheme"
  have inside: "j + ?n < length t" if "occurs_at (t @ b) j"
  proof (rule ccontr)
    assume "\<not> j + ?n < length t"
    then have "(t @ b) ! (j + ?n) = b ! (j + ?n - length t)"
      by (simp add: nth_append)
    moreover have "j + ?n < length t + length b"
      using that by (simp add: occurs_at_def)
    then have "j + ?n - length t < length b"
      using \<open>\<not> j + ?n < length t\<close> by arith
    ultimately have "is_space ((t @ b) ! (j + ?n))"
      using assms by simp
    with that show False by (simp add: occurs_at_def url_char_def)
  qed
  have same: "occurs_at (t @ b) j \<longleftrightarrow> occurs_at t j" if "j + ?n < length t"
    using that by (simp add: occurs_at_def nth_append)
  show ?thesis
    using inside same by (auto simp: occurs_at_def)
qed

lemma takeWhile_stops:
  assumes "\<forall>y\<in>set ys. \<not> P y"
  shows "takeWhile P (xs @ ys) = takeWhile P xs"
proof -
  have "takeWhile P ys = []"
    using assms by (cases ys) simp_all
  then show ?thesis by (induction xs) simp_all
qed

lemma run_at_skip_spaces:
  assumes "\<forall>c\<in>set b. is_space c" "length a \<le> i"
  shows "takeWhile url_char (drop (i + n) (a @ t @ b))
           = takeWhile url_char (drop (i - length a + n) t)"
proof -
  have "drop (i + n) (a @ t @ b)
          = drop (i - length a + n) t @ drop (i - length a + n - length t) b"
    using assms(2) by simp
  moreover have "\<forall>y\<in>set (drop (i - length a + n - length t) b). \<not> url_char y"
    using assms(1) by (auto simp: url_char_def dest: in_set_dropD)
  ultimately show ?thesis by (simp add: takeWhile_stops)
qed

lemma trim_frame:
  "\<exists>a b. s = a @ trim s @ b \<and> (\<forall>c\<in>set a. is_space c) \<and> (\<forall>c\<in>set b. is_space c)"
  using trim_decomp [of s] by (auto simp: list_all_iff)

lemma first_occurrence_in_trim:
  assumes "occurs_at raw i" "\<forall>j<i. \<not> occurs_at raw j"
  shows "extractHookUrl (trim raw)
           = Some (hook_scheme @ takeWhile url_char (drop (i + length hook_scheme) raw))"
proof -
  obtain a b where raw: "raw = a @ trim raw @ b"
    and a: "\<forall>c\<in>set a. is_space c" and b: "\<forall>c\<in>set b. is_space c"
    using trim_frame by blast
  have shift: "occurs_at raw j \<longleftrightarrow> length a \<le> j \<and> occurs_at (trim raw) (j - length a)" for j
    using occurs_at_skip_spaces [OF a, of "trim raw @ b" j]
      occurs_at_trailing_spaces [OF b, of "trim raw" "j - length a"] raw
    by simp
  from assms(1) shift have le: "length a \<le> i" and occ: "occurs_at (trim raw) (i - length a)"
    by simp_all
  have first: "\<forall>j<i - length a. \<not> occurs_at (trim raw) j"
  proof (intro allI impI)
    fix j assume "j < i - length a"
    then have "j + length a < i" by simp
    with assms(2) have "\<not> occurs_at raw (j + length a)" by blast
    with shift [of "j + length a"] show "\<not> occurs_at (trim raw) j" by simp
  qed
  have "takeWhile url_char (drop (i + length hook_scheme) raw)
          = takeWhile url_char (drop (i - length a + length hook_scheme) (trim raw))"
    using run_at_skip_spaces [OF b le, of "length hook_scheme" "trim raw"] raw by simp
  with extract_first_occurrence [OF occ first] show ?thesis by simp
qed

lemma first_occurrence_exists:
  assumes "occurs_at s i"
  shows "\<exists>k. occurs_at s k \<and> (\<forall>j<k. \<not> occurs_at s j)"
proof -
  define k where "k = (LEAST j. occurs_at s j)"
  have "occurs_at s k" unfolding k_def using assms by (rule LeastI)
  moreover have "\<forall>j<k. \<not> occurs_at s j"
    unfolding k_def using not_less_Least by blast
  ultimately show ?thesis by blast
qed

lemma occurrence_split:
  assumes "occurs_at s k"
  shows "s = take k s @ hook_scheme @ takeWhile url_char (drop (k + length hook_scheme) s)
               @ dropWhile url_char (drop (k + length hook_scheme) s)"
    and "length (take k s) = k"
    and "takeWhile url_char (drop (k + length hook_scheme) s) \<noteq> []"
proof -
  let ?n = "length hook_scheme"
  from assms have pre: "take ?n (drop k s) = hook_scheme"
    and len: "k + ?n < length s" and c: "url_char (s ! (k + ?n))"
    by (simp_all add: occurs_at_def)
  have "drop k s = take ?n (drop k s) @ drop ?n (drop k s)"
    by (rule append_take_drop_id [symmetric])
  also have "\<dots> = hook_scheme @ drop (k + ?n) s"
    using pre by (simp add: add.commute)
  finally have "drop k s = hook_scheme @ drop (k + ?n) s" .
  then have "s = take k s @ hook_scheme @ drop (k + ?n) s"
    by (metis append_take_drop_id)
  then show "s = take k s @ hook_scheme @ takeWhile url_char (drop (k + ?n) s)
               @ dropWhile url_char (drop (k + ?n) s)"
    by simp
  show "length (take k s) = k" using len by simp
  show "takeWhile url_char (drop (k + ?n) s) \<noteq> []"
    using len c by (simp add: takeWhile_eq_Nil_iff hd_drop_conv_nth)
qed

lemma occurs_at_first_char:
  assumes "occurs_at s j"
  shows "j < length s \<and> s ! j = 0x68"
proof -
  from assms have pre: "take (length hook_scheme) (drop j s) = hook_scheme"
    and len: "j + length hook_scheme < length s"
    by (simp_all add: occurs_at_def)
  from pre have "take (length hook_scheme) (drop j s) ! 0 = hook_scheme ! 0" by simp
  then have "s ! j = hook_scheme ! 0"
    using len by (simp add: hook_scheme_def lit_def)
  then show ?thesis using len by (simp add: hook_scheme_def lit_def)
qed

lemma run_of_given:
  assumes "\<forall>c\<in>set u. url_char c" "post = [] \<or> \<not> url_char (hd post)"
  shows "takeWhile url_char (drop (length pre + length hook_scheme)
           (pre @ hook_scheme @ u @ post)) = u"
proof -
  have "takeWhile url_char post = []"
    using assms(2) by (simp add: takeWhile_eq_Nil_iff)
  then have "takeWhile url_char (u @ post) = u"
    using assms(1) by (simp add: takeWhile_append2)
  then show ?thesis by simp
qed

text \<open>
  C3: for the link operation, when the captured output contains \<open>hook://\<close> followed by
  one or more characters that are neither whitespace nor quotes, the response has one text
  item and it is exactly the substring the pattern matches: it lies in the output, no
  occurrence of the pattern starts before it, and it takes every admissible character that
  follows \<open>hook://\<close> there. When the occurrence given is that one (nothing starts earlier
  and the run cannot be extended), the text is \<open>hook://\<close> and that run, whatever else the
  output holds.
\<close>

theorem link_returns_hook_url:
  assumes "execSync e (runHook_cmd e (link_args item)) runHook_options = Returned raw"
    and "raw = pre @ hook_scheme @ u @ post" and "u \<noteq> []" and "\<forall>c\<in>set u. url_char c"
  shows "(\<exists>pre' u' post'. raw = pre' @ hook_scheme @ u' @ post' \<and> u' \<noteq> []
            \<and> (\<forall>c\<in>set u'. url_char c)
            \<and> (post' = [] \<or> \<not> url_char (hd post'))
            \<and> (\<forall>j<length pre'. \<not> occurs_at raw j)
            \<and> hookmark_link e item calls =
                (Inr \<lparr>content = [TextContent (hook_scheme @ u')], isError = None\<rparr>,
                 calls @ [\<lparr>command = runHook_cmd e (link_args item),
                            options = runHook_options\<rparr>]))
         \<and> ((post = [] \<or> \<not> url_char (hd post)) \<and> (\<forall>j<length pre. \<not> occurs_at raw j) \<longrightarrow>
              hookmark_link e item calls =
                (Inr \<lparr>content = [TextContent (hook_scheme @ u)], isError = None\<rparr>,
                 calls @ [\<lparr>command = runHook_cmd e (link_args item),
                            options = runHook_options\<rparr>]))"
proof (intro conjI impI)
  let ?n = "length hook_scheme"
  let ?calls = "calls @ [\<lparr>command = runHook_cmd e (link_args item),
                           options = runHook_options\<rparr>]"
  have run: "runHook e (link_args item) calls = (Inr (trim raw), ?calls)"
    using runHook_Returned [OF assms(1)] .
  have answer: "hookmark_link e item calls =
      (Inr \<lparr>content = [TextContent (hook_scheme @ takeWhile url_char (drop (k + ?n) raw))],
            isError = None\<rparr>, ?calls)"
    if "occurs_at raw k" "\<forall>j<k. \<not> occurs_at raw j" for k
    using link_returns [OF run] first_occurrence_in_trim [OF that]
    by (simp add: text_response_def hook_scheme_def lit_def)
  have "url_char (hd u)" using assms(3,4) by simp
  then have here: "occurs_at raw (length pre)"
    using assms(2,3) occurs_at_append by simp
  then obtain k where k: "occurs_at raw k" "\<forall>j<k. \<not> occurs_at raw j"
    using first_occurrence_exists by blast
  let ?u = "takeWhile url_char (drop (k + ?n) raw)"
  let ?post = "dropWhile url_char (drop (k + ?n) raw)"
  have "raw = take k raw @ hook_scheme @ ?u @ ?post" "length (take k raw) = k" "?u \<noteq> []"
    using occurrence_split [OF k(1)] by blast+
  moreover have "\<forall>c\<in>set ?u. url_char c" by (auto dest: set_takeWhileD)
  moreover have "?post = [] \<or> \<not> url_char (hd ?post)" using hd_dropWhile by blast
  moreover have "\<forall>j<length (take k raw). \<not> occurs_at raw j"
    using k(2) \<open>length (take k raw) = k\<close> by simp
  ultimately show "\<exists>pre' u' post'. raw = pre' @ hook_scheme @ u' @ post' \<and> u' \<noteq> []
            \<and> (\<forall>c\<in>set u'. url_char c)
            \<and> (post' = [] \<or> \<not> url_char (hd post'))
            \<and> (\<forall>j<length pre'. \<not> occurs_at raw j)
            \<and> hookmark_link e item calls =
                (Inr \<lparr>content = [TextContent (hook_scheme @ u')], isError = None\<rparr>, ?calls)"
    using answer [OF k] by blast
  assume given: "(post = [] \<or> \<not> url_char (hd post)) \<and> (\<forall>j<length pre. \<not> occurs_at raw j)"
  have "takeWhile url_char (drop (length pre + ?n) raw) = u"
    using run_of_given [of u post pre] assms(2,4) given by simp
  with answer [OF here] given
  show "hookmark_link e item calls =
          (Inr \<lparr>content = [TextContent (hook_scheme @ u)], isError = None\<rparr>, ?calls)"
    by simp
qed

text \<open>
  C10: for the link operation, when the pattern occurs in the captured output, the one text
  item of the response is the occurrence that starts leftmost: if the pattern occurs at
  index \<open>i\<close> and at no smaller index, the text is \<open>hook://\<close> with the run of admissible
  characters that follows it there, also when the pattern occurs again further right.
\<close>

theorem link_returns_first_hook_url:
  assumes "execSync e (runHook_cmd e (link_args item)) runHook_options = Returned raw"
    and "occurs_at raw i" and "\<forall>j<i. \<not> occurs_at raw j"
  shows "hookmark_link e item calls =
           (Inr \<lparr>content =
                   [TextContent
                      (hook_scheme @ takeWhile url_char (drop (i + length hook_scheme) raw))],
                 isError = None\<rparr>,
            calls @ [\<lparr>command = runHook_cmd e (link_args item),
                       options = runHook_options\<rparr>])"
  using link_returns [OF runHook_Returned [OF assms(1)]]
    first_occurrence_in_trim [OF assms(2,3)]
  by (simp add: text_response_def hook_scheme_def lit_def)

theorem link_returns_hook_url_witness:
  "hookmark_link
     \<lparr>HOOK_CLI_var = None,
      execSync = (\<lambda>cmd opts. Returned (lit ''Copied Hook URL hook://file/AbC123 to clipboard''
                                          @ [0x0A]))\<rparr>
     (lit ''/Users/x/note.md'') []
   = (Inr \<lparr>content = [TextContent (lit ''hook://file/AbC123'')], isError = None\<rparr>,
      [\<lparr>command = quoted (lit ''/opt/homebrew/lib/ruby/gems/4.0.0/bin/hook'') @ lit '' ''
                    @ quoted (lit ''clip'') @ lit '' '' @ quoted (lit ''/Users/x/note.md''),
        options = runHook_options\<rparr>])"
proof -
  let ?raw = "lit ''Copied Hook URL hook://file/AbC123 to clipboard'' @ [0x0A]"
  let ?e = "\<lparr>HOOK_CLI_var = None, execSync = (\<lambda>cmd opts. Returned ?raw)\<rparr>"
  let ?item = "lit ''/Users/x/note.md''"
  let ?pre = "lit ''Copied Hook URL ''"
  let ?post = "lit '' to clipboard'' @ [0x0A]"
  have exec: "execSync ?e (runHook_cmd ?e (link_args ?item)) runHook_options = Returned ?raw"
    by simp
  have parts: "?raw = ?pre @ hook_scheme @ lit ''file/AbC123'' @ ?post"
    by (simp add: hook_scheme_def lit_def)
  have u: "lit ''file/AbC123'' \<noteq> []" "\<forall>c\<in>set (lit ''file/AbC123''). url_char c"
    by (simp_all add: lit_def url_char_def is_space_def squote_def dquote_def)
  have stop: "?post = [] \<or> \<not> url_char (hd ?post)"
    by (simp add: lit_def url_char_def is_space_def)
  have before: "\<forall>j<length ?pre. \<not> occurs_at ?raw j"
  proof (intro allI impI)
    fix j :: nat
    assume j: "j < length ?pre"
    have "\<forall>c\<in>set ?pre. c \<noteq> 0x68" by (simp add: lit_def)
    with j have "?pre ! j \<noteq> 0x68" using nth_mem by blast
    moreover have "?raw ! j = ?pre ! j"
      using j parts by (simp add: nth_append)
    ultimately show "\<not> occurs_at ?raw j"
      using occurs_at_first_char [of ?raw j] by auto
  qed
  have cmd: "runHook_cmd ?e (link_args ?item)
               = quoted (lit ''/opt/homebrew/lib/ruby/gems/4.0.0/bin/hook'') @ lit '' ''
                    @ quoted (lit ''clip'') @ lit '' '' @ quoted (lit ''/Users/x/note.md'')"
    by (simp add: runHook_cmd_def HOOK_CLI_def link_args_def shellEscape_def quoted_def
        squote_def lit_def)
  have url: "hook_scheme @ lit ''file/AbC123'' = lit ''hook://file/AbC123''"
    by (simp add: hook_scheme_def lit_def)
  from link_returns_hook_url [OF exec parts u, of "[]", THEN conjunct2, THEN mp]
    stop before
  have "hookmark_link ?e ?item [] =
          (Inr \<lparr>content = [TextContent (hook_scheme @ lit ''file/AbC123'')], isError = None\<rparr>,
           [] @ [\<lparr>command = runHook_cmd ?e (link_args ?item), options = runHook_options\<rparr>])"
    by blast
  with cmd url show ?thesis by simp
qed

theorem link_returns_first_hook_url_witness:
  "hookmark_link
     \<lparr>HOOK_CLI_var = None,
      execSync = (\<lambda>cmd opts. Returned (lit '' see hook://a/1 and hook://b/2'' @ [0x0A]))\<rparr>
     (lit ''/a'') []
   = (Inr \<lparr>content = [TextContent (lit ''hook://a/1'')], isError = None\<rparr>,
      [\<lparr>command = quoted (lit ''/opt/homebrew/lib/ruby/gems/4.0.0/bin/hook'') @ lit '' ''
                    @ quoted (lit ''clip'') @ lit '' '' @ quoted (lit ''/a''),
        options = runHook_options\<rparr>])"
proof -
  let ?raw = "lit '' see hook://a/1 and hook://b/2'' @ [0x0A]"
  let ?e = "\<lparr>HOOK_CLI_var = None, execSync = (\<lambda>cmd opts. Returned ?raw)\<rparr>"
  have exec: "execSync ?e (runHook_cmd ?e (link_args (lit ''/a''))) runHook_options
                = Returned ?raw"
    by simp
  have first: "occurs_at ?raw 5"
    by (simp add: occurs_at_def hook_scheme_def url_char_def is_space_def squote_def
        dquote_def lit_def)
  have second: "occurs_at ?raw 20"
    by (simp add: occurs_at_def hook_scheme_def url_char_def is_space_def squote_def
        dquote_def lit_def)
  have before: "\<forall>j<5. \<not> occurs_at ?raw j"
  proof (intro allI impI)
    fix j :: nat
    assume "j < 5"
    then consider "j = 0" | "j = 1" | "j = 2" | "j = 3" | "j = 4" by linarith
    then show "\<not> occurs_at ?raw j"
      by cases (simp_all add: occurs_at_def hook_scheme_def lit_def)
  qed
  have url: "hook_scheme @ takeWhile url_char (drop (5 + length hook_scheme) ?raw)
                = lit ''hook://a/1''"
    by (simp add: hook_scheme_def url_char_def is_space_def squote_def dquote_def lit_def)
  have cmd: "runHook_cmd ?e (link_args (lit ''/a''))
               = quoted (lit ''/opt/homebrew/lib/ruby/gems/4.0.0/bin/hook'') @ lit '' ''
                    @ quoted (lit ''clip'') @ lit '' '' @ quoted (lit ''/a'')"
    by (simp add: runHook_cmd_def HOOK_CLI_def link_args_def shellEscape_def quoted_def
        squote_def lit_def)
  from link_returns_first_hook_url [OF exec first before, of "[]"] url cmd second
  show ?thesis by simp
qed

end
